theory Spec2Isabelle
  imports Complex_Main
begin

section \<open>Data model (types/models.ts)\<close>

text \<open>
  JavaScript numbers are modelled by the numbers they denote: \<open>int\<close> where the code only
  ever stores whole numbers (RAM, cores, timestamps in milliseconds), \<open>real\<close> elsewhere.
  \<open>Math.round x\<close> is \<open>\<lfloor>x + 1/2\<rfloor>\<close>, which is HOL's \<open>round\<close>. The follow-through score and
  the progress trend, whose results depend on how each operation is rounded, compute
  with the double-precision operations of the next section. Where two interfaces of the
  source share a field name, the later record carries a short prefix, since record
  fields are global constants here.
\<close>

datatype FormScore = A | B | C | D | F

datatype FormIssueType = elbow_flare | wrist_angle | stance | follow_through

datatype FormIssueSeverity = minor | moderate | major

record FormIssue =
  type :: FormIssueType
  severity :: FormIssueSeverity
  description :: string
  recommendedDrills :: "string list"

record BiomechanicalMetrics =
  elbowAlignment :: real
  wristAngle :: real
  shoulderSquare :: real
  followThrough :: real

record FormAnalysisResult =
  overallScore :: FormScore
  detectedIssues :: "FormIssue list"
  biomechanicalMetrics :: BiomechanicalMetrics

record PoseLandmark =
  x :: real
  y :: real
  z :: real
  visibility :: real

datatype DeviceTier = low | mid | high

datatype AnalysisTier = basic | lightweight_ml | full_ml | cloud

record DeviceCapabilities =
  tier :: DeviceTier
  availableRAM :: int
  cpuCores :: int
  hasGPU :: bool
  mlFrameworkSupported :: bool
  benchmarkScore :: int

record UserConsent =
  cloudProcessing :: bool
  dataSharing :: bool

record ProcessingConfig =
  selectedTier :: AnalysisTier
  deviceCapabilities :: DeviceCapabilities
  hasConnectivity :: bool
  userConsent :: UserConsent

section \<open>Double-precision arithmetic\<close>

text \<open>
  A JavaScript number is an IEEE 754 binary64 value, and every arithmetic operation
  returns the exact result rounded to the nearest such value, ties to the even
  significand. A finite value is modelled by the real number it is. The values around
  \<open>v\<close> are the multiples of \<open>2\<close> to the power \<open>ulpExponent v\<close>: 52 below the binade
  \<open>\<lfloor>log\<^sub>2 \<bar>v\<bar>\<rfloor>\<close> of \<open>v\<close>, and never below -1074, where the subnormal values lie.
  Infinities and NaN are not modelled: \<open>fl\<close> rounds a value beyond the largest binary64
  value as if the exponent range went on.
\<close>

definition rne :: "real \<Rightarrow> int" where
  "rne t =
     (let f = \<lfloor>t\<rfloor>; d = t - of_int f
      in if d < 1 / 2 then f
         else if d > 1 / 2 then f + 1
         else if even f then f else f + 1)"

definition binade :: "real \<Rightarrow> int" where
  "binade v = \<lfloor>log 2 \<bar>v\<bar>\<rfloor>"

definition ulpExponent :: "real \<Rightarrow> int" where
  "ulpExponent v = max (binade v - 52) (- 1074)"

definition fl :: "real \<Rightarrow> real" where
  "fl v =
     (if v = 0 then 0
      else of_int (rne (v / 2 powr of_int (ulpExponent v))) * 2 powr of_int (ulpExponent v))"

text \<open>The operators \<open>+\<close>, \<open>-\<close>, \<open>*\<close> and \<open>/\<close> on numbers; a literal such as \<open>0.6\<close> is \<open>fl 0.6\<close>.\<close>

definition fadd :: "real \<Rightarrow> real \<Rightarrow> real" where
  "fadd a b = fl (a + b)"

definition fsub :: "real \<Rightarrow> real \<Rightarrow> real" where
  "fsub a b = fl (a - b)"

definition fmul :: "real \<Rightarrow> real \<Rightarrow> real" where
  "fmul a b = fl (a * b)"

definition fdiv :: "real \<Rightarrow> real \<Rightarrow> real" where
  "fdiv a b = fl (a / b)"

section \<open>Adaptive processing router (utils/AdaptiveProcessingRouter.ts)\<close>

datatype ConnectionType = wifi | cellular | none

record ConnectivityStatus =
  isConnected :: bool
  connectionType :: ConnectionType
  isMetered :: bool

text \<open>\<open>ProcessingResult<T>\<close>; its \<open>tier\<close> field is \<open>pr_tier\<close> here.\<close>

record 'a ProcessingResult =
  data :: 'a
  pr_tier :: AnalysisTier
  processingTime :: int
  fallbackUsed :: bool

definition selectProcessingTier ::
  "DeviceCapabilities \<Rightarrow> ConnectivityStatus \<Rightarrow> UserConsent \<Rightarrow> AnalysisTier" where
  "selectProcessingTier capabilities connectivity consent =
     (if isConnected connectivity \<and> cloudProcessing consent \<and>
         connectionType connectivity = wifi \<and> \<not> isMetered connectivity
      then cloud
      else if tier capabilities = high \<and> mlFrameworkSupported capabilities then full_ml
      else if tier capabilities = mid \<and> mlFrameworkSupported capabilities then lightweight_ml
      else basic)"

fun getFallbackTier :: "AnalysisTier \<Rightarrow> AnalysisTier option" where
  "getFallbackTier cloud = Some full_ml"
| "getFallbackTier full_ml = Some lightweight_ml"
| "getFallbackTier lightweight_ml = Some basic"
| "getFallbackTier basic = None"

definition updateConfigForConnectivity ::
  "ProcessingConfig \<Rightarrow> ConnectivityStatus \<Rightarrow> ProcessingConfig" where
  "updateConfigForConnectivity config connectivity =
     config\<lparr>selectedTier :=
              selectProcessingTier (deviceCapabilities config) connectivity (userConsent config),
            hasConnectivity := isConnected connectivity\<rparr>"

definition validateProcessingTier :: "AnalysisTier \<Rightarrow> ProcessingConfig \<Rightarrow> bool" where
  "validateProcessingTier t config =
     (if t = cloud then hasConnectivity config \<and> cloudProcessing (userConsent config)
      else if t = full_ml \<or> t = lightweight_ml
        then mlFrameworkSupported (deviceCapabilities config)
      else True)"

definition getRecommendedTier :: "ProcessingConfig \<Rightarrow> AnalysisTier" where
  "getRecommendedTier config =
     selectProcessingTier (deviceCapabilities config)
       \<lparr>isConnected = hasConnectivity config,
        connectionType = (if hasConnectivity config then wifi else none),
        isMetered = False\<rparr>
       (userConsent config)"

text \<open>
  What \<open>routeVideoAnalysis\<close> throws. The strategy function throws values of type \<open>'e\<close>.
  \<open>Rethrown e\<close> is an error of the strategy leaving the router as it is (the last-resort
  call of the basic tier is not inside a \<open>try\<close>); \<open>VideoAnalysisFailed e\<close> is the
  \<open>new Error(`Video analysis failed: ${error}`)\<close> of the last line, built from the error
  \<open>e\<close> of the first attempt.
\<close>

datatype 'e RouteError = Rethrown 'e | VideoAnalysisFailed 'e

text \<open>
  The tier the first attempt runs: the configured one, or the recommended one when the
  configured one does not validate.
\<close>

definition initialTier :: "ProcessingConfig \<Rightarrow> AnalysisTier" where
  "initialTier config =
     (if \<not> validateProcessingTier (selectedTier config) config
      then getRecommendedTier config else selectedTier config)"

text \<open>
  \<open>routeVideoAnalysis\<close>. The strategy \<open>analysisFunction videoPath tier\<close> returns \<open>Inr\<close> its
  data or \<open>Inl\<close> the error it throws. \<open>startTime\<close> is the first reading of the clock and
  \<open>endTime\<close> the reading taken after the attempt that succeeds (every run takes at most
  one). Console output is left out.
\<close>

definition routeVideoAnalysis ::
  "int \<Rightarrow> int \<Rightarrow> string \<Rightarrow> ProcessingConfig \<Rightarrow> (string \<Rightarrow> AnalysisTier \<Rightarrow> 'e + 'a)
     \<Rightarrow> 'e RouteError + 'a ProcessingResult" where
  "routeVideoAnalysis startTime endTime videoPath config analysisFunction =
     (let currentTier = initialTier config;
          fallbackUsed0 = \<not> validateProcessingTier (selectedTier config) config
      in case analysisFunction videoPath currentTier of
           Inr d \<Rightarrow>
             Inr \<lparr>data = d, pr_tier = currentTier,
                  processingTime = endTime - startTime, fallbackUsed = fallbackUsed0\<rparr>
         | Inl error \<Rightarrow>
             (case getFallbackTier currentTier of
                Some fallbackTier \<Rightarrow>
                  (case analysisFunction videoPath fallbackTier of
                     Inr d \<Rightarrow>
                       Inr \<lparr>data = d, pr_tier = fallbackTier,
                            processingTime = endTime - startTime, fallbackUsed = True\<rparr>
                   | Inl fallbackError \<Rightarrow>
                       (if fallbackTier \<noteq> basic
                        then (case analysisFunction videoPath basic of
                                Inr d \<Rightarrow>
                                  Inr \<lparr>data = d, pr_tier = basic,
                                       processingTime = endTime - startTime,
                                       fallbackUsed = True\<rparr>
                              | Inl lastError \<Rightarrow> Inl (Rethrown lastError))
                        else Inl (VideoAnalysisFailed error)))
              | None \<Rightarrow> Inl (VideoAnalysisFailed error)))"

text \<open>
  Repeated application of \<open>getFallbackTier\<close>: the tier reached after \<open>n\<close> steps down the
  chain, \<open>None\<close> once the chain has ended.
\<close>

fun fallbackSteps :: "nat \<Rightarrow> AnalysisTier \<Rightarrow> AnalysisTier option" where
  "fallbackSteps 0 t = Some t"
| "fallbackSteps (Suc n) t =
     (case getFallbackTier t of None \<Rightarrow> None | Some t' \<Rightarrow> fallbackSteps n t')"

text \<open>
  The claim's hypothesis that every attempted tier fails: the first attempt fails, its
  fallback (when the chain has one) fails, and when that fallback is not the basic tier
  the final attempt of the basic tier fails too.
\<close>

definition exhausted ::
  "string \<Rightarrow> ProcessingConfig \<Rightarrow> (string \<Rightarrow> AnalysisTier \<Rightarrow> 'e + 'a) \<Rightarrow> bool" where
  "exhausted videoPath config analysisFunction =
     (isl (analysisFunction videoPath (initialTier config)) \<and>
      (case getFallbackTier (initialTier config) of
         None \<Rightarrow> True
       | Some fallbackTier \<Rightarrow>
           isl (analysisFunction videoPath fallbackTier) \<and>
           (fallbackTier = basic \<or> isl (analysisFunction videoPath basic))))"

text \<open>Concrete inputs: the mid-range device of the router's tests, and two strategy stubs.\<close>

definition midRangeConfig :: ProcessingConfig where
  "midRangeConfig =
     \<lparr>selectedTier = lightweight_ml,
      deviceCapabilities =
        \<lparr>tier = mid, availableRAM = 4096, cpuCores = 4, hasGPU = True,
         mlFrameworkSupported = True, benchmarkScore = 65\<rparr>,
      hasConnectivity = False,
      userConsent = \<lparr>cloudProcessing = False, dataSharing = False\<rparr>\<rparr>"

definition alwaysFails :: "string \<Rightarrow> AnalysisTier \<Rightarrow> string + nat" where
  "alwaysFails videoPath t =
     (if t = basic then Inl ''basic failed''
      else if t = lightweight_ml then Inl ''lightweight_ml failed''
      else Inl ''other tier failed'')"

definition lightweightFails :: "string \<Rightarrow> AnalysisTier \<Rightarrow> string + nat" where
  "lightweightFails videoPath t =
     (if t = basic then Inr 42 else Inl ''lightweight_ml failed'')"

section \<open>Pose estimation engine (ml/PoseEstimationEngine.ts)\<close>

datatype MajorJoint =
    NOSE | LEFT_SHOULDER | RIGHT_SHOULDER | LEFT_ELBOW | RIGHT_ELBOW
  | LEFT_WRIST | RIGHT_WRIST | LEFT_HIP | RIGHT_HIP
  | LEFT_KNEE | RIGHT_KNEE | LEFT_ANKLE | RIGHT_ANKLE

text \<open>\<open>keypoints\<close> is a \<open>Map<MajorJoint, PoseLandmark>\<close>; \<open>get\<close> of a missing joint is \<open>None\<close>.\<close>

record KeypointFrame =
  keypoints :: "MajorJoint \<rightharpoonup> PoseLandmark"
  timestamp :: real
  confidence :: real

record ArmKeypoints =
  wrist :: PoseLandmark
  elbow :: PoseLandmark
  shoulder :: PoseLandmark

definition getShootingArmKeypoints :: "KeypointFrame \<Rightarrow> bool \<Rightarrow> ArmKeypoints option" where
  "getShootingArmKeypoints keypointFrame isLeftHanded =
     (let wristJoint = (if isLeftHanded then LEFT_WRIST else RIGHT_WRIST);
          elbowJoint = (if isLeftHanded then LEFT_ELBOW else RIGHT_ELBOW);
          shoulderJoint = (if isLeftHanded then LEFT_SHOULDER else RIGHT_SHOULDER)
      in case (keypoints keypointFrame wristJoint, keypoints keypointFrame elbowJoint,
               keypoints keypointFrame shoulderJoint) of
           (Some w, Some e, Some s) \<Rightarrow> Some \<lparr>wrist = w, elbow = e, shoulder = s\<rparr>
         | _ \<Rightarrow> None)"

definition calculateJointAngle :: "PoseLandmark \<Rightarrow> PoseLandmark \<Rightarrow> PoseLandmark \<Rightarrow> real" where
  "calculateJointAngle point1 point2 point3 =
     (let v1x = x point1 - x point2;
          v1y = y point1 - y point2;
          v2x = x point3 - x point2;
          v2y = y point3 - y point2;
          dotProduct = v1x * v2x + v1y * v2y;
          mag1 = sqrt (v1x * v1x + v1y * v1y);
          mag2 = sqrt (v2x * v2x + v2y * v2y)
      in if mag1 = 0 \<or> mag2 = 0 then 0
         else let cosAngle = dotProduct / (mag1 * mag2);
                  angleRad = arccos (max (- 1) (min 1 cosAngle))
              in (angleRad * 180) / pi)"

text \<open>\<open>Math.atan2 b a\<close> on real numbers: the angle of the point \<open>(a, b)\<close>, in \<open>(-\<pi>, \<pi>]\<close>.\<close>

definition atan2 :: "real \<Rightarrow> real \<Rightarrow> real" where
  "atan2 b a =
     (if a > 0 then arctan (b / a)
      else if a < 0 \<and> b \<ge> 0 then arctan (b / a) + pi
      else if a < 0 then arctan (b / a) - pi
      else if b > 0 then pi / 2
      else if b < 0 then - (pi / 2)
      else 0)"

section \<open>Lightweight form analyzer (ml/LightweightFormAnalyzer.ts)\<close>

text \<open>The \<open>followThrough\<close> phase is \<open>ph_followThrough\<close> here.\<close>

record ShootingPhases =
  preparation :: "KeypointFrame list"
  release :: "KeypointFrame list"
  ph_followThrough :: "KeypointFrame list"

text \<open>\<open>BiomechanicalAnalysis\<close>, fields prefixed with \<open>ba_\<close>.\<close>

record BiomechanicalAnalysis =
  ba_elbowAlignment :: real
  ba_wristAngle :: real
  ba_shoulderSquare :: real
  ba_followThrough :: real
  ba_releaseHeight :: real
  ba_bodyBalance :: real

text \<open>The errors the analyzer throws, one constructor for each message.\<close>

datatype AnalysisError =
    ModelLoadFailed
  | NoKeypointsDetected
  | NoKeypointFrames
  | NoReleaseFrame
  | NoShootingArmKeypoints
  | VideoPoseProcessingFailed
  | LightweightAnalysisFailed AnalysisError

text \<open>
  The loop of \<open>detectShootingPhases\<close> over \<open>wristHeights[i]\<close> for \<open>i = 1, 2, ...\<close>: the
  first argument is the part of the array still to visit, \<open>i\<close> the index of its head.
\<close>

fun releaseLoop :: "real list \<Rightarrow> nat \<Rightarrow> real \<Rightarrow> nat \<Rightarrow> nat" where
  "releaseLoop [] i maxHeight releaseIdx = releaseIdx"
| "releaseLoop (h # hs) i maxHeight releaseIdx =
     (if h < maxHeight then releaseLoop hs (i + 1) h i
      else releaseLoop hs (i + 1) maxHeight releaseIdx)"

definition detectShootingPhases :: "KeypointFrame list \<Rightarrow> AnalysisError + ShootingPhases" where
  "detectShootingPhases keypointFrames =
     (if length keypointFrames = 0 then Inl NoKeypointFrames
      else
        let wristHeights =
              map (\<lambda>frame. case keypoints frame RIGHT_WRIST of
                               Some rightWrist \<Rightarrow> y rightWrist | None \<Rightarrow> 0) keypointFrames;
            releaseIdx = releaseLoop (tl wristHeights) 1 (hd wristHeights) 0;
            prepEndIdx = (if releaseIdx \<ge> 2 then releaseIdx - 2 else 0);
            releaseEndIdx = min (length keypointFrames - 1) (releaseIdx + 2)
        in Inr \<lparr>preparation = take (prepEndIdx + 1) keypointFrames,
                release = drop prepEndIdx (take (releaseEndIdx + 1) keypointFrames),
                ph_followThrough = drop releaseEndIdx keypointFrames\<rparr>)"

definition calculateElbowAlignment ::
  "PoseLandmark \<Rightarrow> PoseLandmark \<Rightarrow> PoseLandmark \<Rightarrow> real" where
  "calculateElbowAlignment shoulderP elbowP wristP =
     (let angle = calculateJointAngle shoulderP elbowP wristP;
          optimalAngle = 90;
          deviation = \<bar>angle - optimalAngle\<bar>;
          score = max 0 (100 - deviation * 3.33)
      in real_of_int (round score))"

definition calculateWristAngle :: "PoseLandmark \<Rightarrow> PoseLandmark \<Rightarrow> KeypointFrame \<Rightarrow> real" where
  "calculateWristAngle elbowP wristP frame =
     (let dx = x wristP - x elbowP;
          dy = y wristP - y elbowP;
          angleFromVertical = \<bar>atan2 dx dy * (180 / pi)\<bar>;
          deviation = \<bar>angleFromVertical - 0\<bar>;
          score = max 0 (100 - deviation * 5)
      in real_of_int (round score))"

definition calculateShoulderSquare :: "KeypointFrame \<Rightarrow> real" where
  "calculateShoulderSquare frame =
     (case (keypoints frame LEFT_SHOULDER, keypoints frame RIGHT_SHOULDER) of
        (Some leftShoulder, Some rightShoulder) \<Rightarrow>
          (let dx = x rightShoulder - x leftShoulder;
               dy = y rightShoulder - y leftShoulder;
               angle = \<bar>atan2 dy dx * (180 / pi)\<bar>;
               deviation = \<bar>angle\<bar>;
               score = max 0 (100 - deviation * 5)
           in real_of_int (round score))
      | _ \<Rightarrow> 50)"

text \<open>
  \<open>calculateFollowThroughQuality\<close>, in double precision. \<open>Math.pow(d, 2)\<close> is the rounded
  product of \<open>d\<close> with itself.
\<close>

definition calculateFollowThroughQuality :: "KeypointFrame list \<Rightarrow> real" where
  "calculateFollowThroughQuality followThroughFrames =
     (if length followThroughFrames = 0 then 0
      else
        let wristPositions =
              List.map_filter (\<lambda>frame. keypoints frame RIGHT_WRIST) followThroughFrames
        in if length wristPositions < 2 then 50
           else
             let avgY = fdiv (foldl (\<lambda>sum w. fadd sum (y w)) 0 wristPositions)
                          (real (length wristPositions));
                 variance =
                   fdiv (foldl (\<lambda>sum w. fadd sum (fmul (fsub (y w) avgY) (fsub (y w) avgY)))
                           0 wristPositions)
                     (real (length wristPositions));
                 durationScore =
                   min 100 (fmul (fdiv (real (length followThroughFrames)) 5) 100);
                 consistencyScore = max 0 (fsub 100 (fmul variance 500));
                 score = fadd (fmul durationScore (fl 0.6)) (fmul consistencyScore (fl 0.4))
             in real_of_int (round score))"

definition calculateBodyBalance :: "KeypointFrame \<Rightarrow> real" where
  "calculateBodyBalance frame =
     (case (keypoints frame LEFT_HIP, keypoints frame RIGHT_HIP,
            keypoints frame LEFT_ANKLE, keypoints frame RIGHT_ANKLE) of
        (Some leftHip, Some rightHip, Some leftAnkle, Some rightAnkle) \<Rightarrow>
          (let hipDy = \<bar>y leftHip - y rightHip\<bar>;
               hipScore = max 0 (100 - hipDy * 500);
               stanceWidth = \<bar>x leftAnkle - x rightAnkle\<bar>;
               optimalWidth = 0.3;
               stanceDeviation = \<bar>stanceWidth - optimalWidth\<bar>;
               stanceScore = max 0 (100 - stanceDeviation * 200);
               score = hipScore * 0.5 + stanceScore * 0.5
           in real_of_int (round score))
      | _ \<Rightarrow> 50)"

text \<open>
  \<open>phases.release[Math.floor(length / 2)]\<close> is \<open>undefined\<close> exactly when the release
  phase is empty; the function throws then.
\<close>

definition calculateBiomechanicsFromPose ::
  "ShootingPhases \<Rightarrow> AnalysisError + BiomechanicalAnalysis" where
  "calculateBiomechanicsFromPose phases =
     (if release phases = [] then Inl NoReleaseFrame
      else
        let releaseFrame = release phases ! (length (release phases) div 2)
        in case getShootingArmKeypoints releaseFrame False of
             None \<Rightarrow> Inl NoShootingArmKeypoints
           | Some armKeypoints \<Rightarrow>
               Inr \<lparr>ba_elbowAlignment =
                      calculateElbowAlignment (shoulder armKeypoints) (elbow armKeypoints)
                        (wrist armKeypoints),
                    ba_wristAngle =
                      calculateWristAngle (elbow armKeypoints) (wrist armKeypoints) releaseFrame,
                    ba_shoulderSquare = calculateShoulderSquare releaseFrame,
                    ba_followThrough = calculateFollowThroughQuality (ph_followThrough phases),
                    ba_releaseHeight = 1.0 - y (wrist armKeypoints),
                    ba_bodyBalance = calculateBodyBalance releaseFrame\<rparr>)"

text \<open>The local \<open>totalScore\<close> of \<open>calculateFormScore\<close>, and the letter grade it is turned into.\<close>

definition totalScore :: "BiomechanicalAnalysis \<Rightarrow> real" where
  "totalScore biomechanics =
     ba_elbowAlignment biomechanics * 0.25 +
     ba_wristAngle biomechanics * 0.20 +
     ba_shoulderSquare biomechanics * 0.20 +
     ba_followThrough biomechanics * 0.25 +
     ba_bodyBalance biomechanics * 0.10"

definition calculateFormScore :: "BiomechanicalAnalysis \<Rightarrow> FormScore" where
  "calculateFormScore biomechanics =
     (if totalScore biomechanics \<ge> 90 then A
      else if totalScore biomechanics \<ge> 80 then B
      else if totalScore biomechanics \<ge> 70 then C
      else if totalScore biomechanics \<ge> 60 then D
      else F)"

text \<open>The \<open>severityOrder\<close> table of the comparators passed to \<open>sort\<close>.\<close>

fun severityOrder :: "FormIssueSeverity \<Rightarrow> nat" where
  "severityOrder major = 0"
| "severityOrder moderate = 1"
| "severityOrder minor = 2"

text \<open>
  \<open>issues.sort((a, b) => severityOrder[a.severity] - severityOrder[b.severity])\<close>:
  \<open>Array.prototype.sort\<close> is stable, as is the insertion sort \<open>sort_key\<close>.
\<close>

definition sortBySeverity :: "FormIssue list \<Rightarrow> FormIssue list" where
  "sortBySeverity issues = sort_key (\<lambda>issue. severityOrder (severity issue)) issues"

definition elbowIssues :: "BiomechanicalAnalysis \<Rightarrow> FormIssue list" where
  "elbowIssues biomechanics =
     (if ba_elbowAlignment biomechanics < 60 then
        [\<lparr>type = elbow_flare, severity = major,
          description = ''Your elbow is significantly out of alignment. Focus on keeping it under the ball.'',
          recommendedDrills =
            [''Wall shooting drill - Practice form against a wall'',
             ''One-hand form shooting - Focus on elbow alignment'',
             ''Chair drill - Sit and practice shooting motion'']\<rparr>]
      else if ba_elbowAlignment biomechanics < 75 then
        [\<lparr>type = elbow_flare, severity = moderate,
          description = ''Your elbow alignment needs improvement. Keep it more vertical.'',
          recommendedDrills =
            [''One-hand form shooting'', ''Mirror practice - Watch your elbow position'']\<rparr>]
      else [])"

definition wristIssues :: "BiomechanicalAnalysis \<Rightarrow> FormIssue list" where
  "wristIssues biomechanics =
     (if ba_wristAngle biomechanics < 65 then
        [\<lparr>type = wrist_angle, severity = moderate,
          description = ''Your wrist position at release needs work. Aim for a straighter wrist with good snap.'',
          recommendedDrills =
            [''Wrist flick drill - Practice wrist snap motion'',
             ''Close-range shooting - Focus on wrist follow-through'',
             ''Lying down shooting - Isolate wrist motion'']\<rparr>]
      else if ba_wristAngle biomechanics < 80 then
        [\<lparr>type = wrist_angle, severity = minor,
          description = ''Minor wrist angle adjustment needed for optimal release.'',
          recommendedDrills = [''Wrist flick drill'']\<rparr>]
      else [])"

definition shoulderIssues :: "BiomechanicalAnalysis \<Rightarrow> FormIssue list" where
  "shoulderIssues biomechanics =
     (if ba_shoulderSquare biomechanics < 70 then
        [\<lparr>type = stance, severity = moderate,
          description = ''Your shoulders are not square to the basket. Align your body properly.'',
          recommendedDrills =
            [''Stance and alignment drills'', ''Feet positioning practice'',
             ''Square-up drill before shooting'']\<rparr>]
      else [])"

definition followThroughIssues :: "BiomechanicalAnalysis \<Rightarrow> FormIssue list" where
  "followThroughIssues biomechanics =
     (if ba_followThrough biomechanics < 60 then
        [\<lparr>type = follow_through, severity = major,
          description = ''Your follow-through is inconsistent or too short. Hold your form longer.'',
          recommendedDrills =
            [''Freeze drill - Hold follow-through for 2 seconds'',
             ''Slow-motion shooting - Practice complete follow-through'',
             ''Goose-neck finish - Focus on wrist position'']\<rparr>]
      else if ba_followThrough biomechanics < 75 then
        [\<lparr>type = follow_through, severity = moderate,
          description = ''Extend your follow-through for better consistency.'',
          recommendedDrills = [''Freeze drill'', ''Count to 2 after release'']\<rparr>]
      else [])"

text \<open>
  \<open>detectFormIssuesFromPose\<close>: the four checks push onto \<open>issues\<close> in this order, then
  the array is sorted and cut to its first three entries. \<open>phases\<close> is not read.
\<close>

definition detectFormIssuesFromPose ::
  "BiomechanicalAnalysis \<Rightarrow> ShootingPhases \<Rightarrow> FormIssue list" where
  "detectFormIssuesFromPose biomechanics phases =
     take 3 (sortBySeverity
       (elbowIssues biomechanics @ wristIssues biomechanics @
        shoulderIssues biomechanics @ followThroughIssues biomechanics))"

text \<open>
  \<open>performLightweightMLAnalysis\<close>, given what its two collaborators return:
  \<open>model\<close> from \<open>loadPoseModelWithFallback\<close> (\<open>None\<close> for \<open>null\<close>) and \<open>poseFrames\<close> from
  \<open>processVideoForPose\<close> (\<open>Inl\<close> when it throws). Every error is caught and thrown again
  inside a new error.
\<close>

definition lightweightAnalysisBody ::
  "'m option \<Rightarrow> AnalysisError + KeypointFrame list \<Rightarrow> AnalysisError + FormAnalysisResult" where
  "lightweightAnalysisBody model poseFrames =
     (case model of
        None \<Rightarrow> Inl ModelLoadFailed
      | Some m \<Rightarrow>
          (case poseFrames of
             Inl e \<Rightarrow> Inl e
           | Inr keypointFrames \<Rightarrow>
               if length keypointFrames = 0 then Inl NoKeypointsDetected
               else
                 (case detectShootingPhases keypointFrames of
                    Inl e \<Rightarrow> Inl e
                  | Inr phases \<Rightarrow>
                      (case calculateBiomechanicsFromPose phases of
                         Inl e \<Rightarrow> Inl e
                       | Inr biomechanics \<Rightarrow>
                           Inr \<lparr>overallScore = calculateFormScore biomechanics,
                                detectedIssues = detectFormIssuesFromPose biomechanics phases,
                                biomechanicalMetrics =
                                  \<lparr>elbowAlignment = ba_elbowAlignment biomechanics,
                                   wristAngle = ba_wristAngle biomechanics,
                                   shoulderSquare = ba_shoulderSquare biomechanics,
                                   followThrough = ba_followThrough biomechanics\<rparr>\<rparr>))))"

definition performLightweightMLAnalysis ::
  "'m option \<Rightarrow> AnalysisError + KeypointFrame list \<Rightarrow> AnalysisError + FormAnalysisResult" where
  "performLightweightMLAnalysis model poseFrames =
     (case lightweightAnalysisBody model poseFrames of
        Inl e \<Rightarrow> Inl (LightweightAnalysisFailed e)
      | Inr result \<Rightarrow> Inr result)"

section \<open>Basic rule-based engine (analysis/BasicAnalysisEngine.ts)\<close>

record ShotTrajectory =
  releaseAngle :: real
  releaseHeight :: real
  arcHeight :: real
  releaseSpeed :: real
  followThroughDuration :: real

text \<open>\<open>BodyPositioning\<close>; its \<open>wristAngle\<close> field is \<open>bp_wristAngle\<close> here.\<close>

record BodyPositioning =
  shoulderAlignment :: real
  elbowAngle :: real
  bp_wristAngle :: real
  stanceWidth :: real
  kneeFlexion :: real

record Timing =
  totalDuration :: real
  preparationPhase :: real
  releasePhase :: real
  followThroughPhase :: real

record MotionAnalysisResult =
  trajectory :: ShotTrajectory
  positioning :: BodyPositioning
  timing :: Timing

definition applyRuleBasedScoring :: "MotionAnalysisResult \<Rightarrow> FormScore" where
  "applyRuleBasedScoring motion =
     (let score0 = (100 :: real);
          releaseAngleDiff = \<bar>releaseAngle (trajectory motion) - 48\<bar>;
          score1 = (if releaseAngleDiff > 10 then score0 - 20
                    else if releaseAngleDiff > 5 then score0 - 10 else score0);
          elbowAngleDiff = \<bar>elbowAngle (positioning motion) - 90\<bar>;
          score2 = (if elbowAngleDiff > 15 then score1 - 20
                    else if elbowAngleDiff > 10 then score1 - 10 else score1);
          shoulderDiff = \<bar>shoulderAlignment (positioning motion)\<bar>;
          score3 = (if shoulderDiff > 15 then score2 - 15
                    else if shoulderDiff > 10 then score2 - 8 else score2);
          score4 = (if followThroughDuration (trajectory motion) < 200 then score3 - 15
                    else if followThroughDuration (trajectory motion) < 250 then score3 - 8
                    else score3);
          arcDiff = \<bar>arcHeight (trajectory motion) - 0.75\<bar>;
          score = (if arcDiff > 0.15 then score4 - 10
                   else if arcDiff > 0.1 then score4 - 5 else score4)
      in if score \<ge> 90 then A
         else if score \<ge> 80 then B
         else if score \<ge> 70 then C
         else if score \<ge> 60 then D
         else F)"

definition detectFormIssues :: "MotionAnalysisResult \<Rightarrow> FormIssue list" where
  "detectFormIssues motion =
     (let elbowAngleDiff = \<bar>elbowAngle (positioning motion) - 90\<bar>;
          wristDiff = \<bar>bp_wristAngle (positioning motion)\<bar>;
          stanceDiff = \<bar>stanceWidth (positioning motion) - 0.5\<bar>
      in
       (if elbowAngleDiff > 15 then
          [\<lparr>type = elbow_flare, severity = major,
            description = ''Your elbow is flaring out too much. Keep it aligned under the ball.'',
            recommendedDrills =
              [''Wall shooting drill - Practice form against a wall'',
               ''One-hand form shooting - Focus on elbow alignment'']\<rparr>]
        else if elbowAngleDiff > 10 then
          [\<lparr>type = elbow_flare, severity = moderate,
            description = ''Your elbow alignment could be improved. Try to keep it more vertical.'',
            recommendedDrills = [''One-hand form shooting'']\<rparr>]
        else []) @
       (if wristDiff > 10 then
          [\<lparr>type = wrist_angle, severity = moderate,
            description = ''Your wrist angle at release needs adjustment. Aim for a straight wrist.'',
            recommendedDrills =
              [''Wrist flick drill - Practice wrist snap motion'',
               ''Close-range shooting - Focus on wrist follow-through'']\<rparr>]
        else []) @
       (if stanceDiff > 0.2 then
          [\<lparr>type = stance, severity = minor,
            description = ''Your stance width could be better. Feet should be shoulder-width apart.'',
            recommendedDrills = [''Balance and stance drills'']\<rparr>]
        else []) @
       (if followThroughDuration (trajectory motion) < 200 then
          [\<lparr>type = follow_through, severity = major,
            description = ''Your follow-through is too short. Hold your form longer after release.'',
            recommendedDrills =
              [''Freeze drill - Hold follow-through position for 2 seconds'',
               ''Slow-motion shooting - Practice complete follow-through'']\<rparr>]
        else if followThroughDuration (trajectory motion) < 250 then
          [\<lparr>type = follow_through, severity = moderate,
            description = ''Extend your follow-through slightly longer for better consistency.'',
            recommendedDrills = [''Freeze drill'']\<rparr>]
        else []))"

definition calculateBiomechanicalMetrics :: "MotionAnalysisResult \<Rightarrow> BiomechanicalMetrics" where
  "calculateBiomechanicalMetrics motion =
     (let elbowScore = max 0 (100 - \<bar>elbowAngle (positioning motion) - 90\<bar> * 5);
          wristScore = max 0 (100 - \<bar>bp_wristAngle (positioning motion)\<bar> * 6);
          shoulderScore = max 0 (100 - \<bar>shoulderAlignment (positioning motion)\<bar> * 4);
          followThroughDiff = \<bar>followThroughDuration (trajectory motion) - 350\<bar>;
          followThroughScore = max 0 (100 - followThroughDiff * 0.3)
      in \<lparr>elbowAlignment = real_of_int (round elbowScore),
          wristAngle = real_of_int (round wristScore),
          shoulderSquare = real_of_int (round shoulderScore),
          followThrough = real_of_int (round followThroughScore)\<rparr>)"

text \<open>
  \<open>performBasicAnalysis\<close>, given the motion data its vision collaborators return.
  \<open>generateFeedbackMessages\<close> sorts the array of detected issues in place before the
  result is built from it, so the result holds the sorted array.
\<close>

definition performBasicAnalysis :: "MotionAnalysisResult \<Rightarrow> FormAnalysisResult" where
  "performBasicAnalysis motion =
     \<lparr>overallScore = applyRuleBasedScoring motion,
      detectedIssues = sortBySeverity (detectFormIssues motion),
      biomechanicalMetrics = calculateBiomechanicalMetrics motion\<rparr>"

section \<open>Strategy dispatch (ml/MLAnalysisIntegration.ts, video/VideoAnalysisIntegration.ts)\<close>

text \<open>
  \<open>performMLAnalysisWithFallback\<close>: the three ML tiers try the lightweight analysis and,
  when it throws, run the basic one. \<open>model\<close> and \<open>poseFrames\<close> are what the
  collaborators of the lightweight analysis return, \<open>motion\<close> what those of the basic
  analysis return.
\<close>

definition performMLAnalysisWithFallback ::
  "AnalysisTier \<Rightarrow> 'm option \<Rightarrow> AnalysisError + KeypointFrame list \<Rightarrow> MotionAnalysisResult
     \<Rightarrow> FormAnalysisResult" where
  "performMLAnalysisWithFallback t model poseFrames motion =
     (if t = lightweight_ml then
        (case performLightweightMLAnalysis model poseFrames of
           Inr result \<Rightarrow> result | Inl error \<Rightarrow> performBasicAnalysis motion)
      else if t = full_ml then
        (case performLightweightMLAnalysis model poseFrames of
           Inr result \<Rightarrow> result | Inl error \<Rightarrow> performBasicAnalysis motion)
      else if t = cloud then
        (case performLightweightMLAnalysis model poseFrames of
           Inr result \<Rightarrow> result | Inl error \<Rightarrow> performBasicAnalysis motion)
      else performBasicAnalysis motion)"

text \<open>
  \<open>performAnalysisByTier\<close>, the strategy the integration layer hands to the router: every
  tier runs the basic analysis.
\<close>

fun performAnalysisByTier :: "AnalysisTier \<Rightarrow> MotionAnalysisResult \<Rightarrow> FormAnalysisResult" where
  "performAnalysisByTier basic motion = performBasicAnalysis motion"
| "performAnalysisByTier lightweight_ml motion = performBasicAnalysis motion"
| "performAnalysisByTier full_ml motion = performBasicAnalysis motion"
| "performAnalysisByTier cloud motion = performBasicAnalysis motion"

section \<open>Feedback generator (feedback/FeedbackGenerator.ts)\<close>

record FeedbackRecommendation =
  priority :: nat
  issue :: FormIssue
  explanation :: string
  drills :: "string list"
  whyItMatters :: string

record SessionFeedback =
  overallMessage :: string
  formScore :: FormScore
  recommendations :: "FeedbackRecommendation list"
  encouragement :: string
  nextSteps :: "string list"

definition generateOverallMessage :: "FormScore \<Rightarrow> AnalysisTier \<Rightarrow> string" where
  "generateOverallMessage score t =
     (let isAdvanced = (t \<noteq> basic)
      in case score of
           A \<Rightarrow> if isAdvanced
                then ''Outstanding form! Your biomechanics show excellent alignment and consistency.''
                else ''Excellent form! Your shooting technique is strong.''
         | B \<Rightarrow> if isAdvanced
                then ''Solid form with good fundamentals. A few adjustments will take you to the next level.''
                else ''Good form with room for improvement.''
         | C \<Rightarrow> if isAdvanced
                then ''Your form shows potential but needs work in several areas. Focus on the recommendations below.''
                else ''Decent form, but focus on the key issues below.''
         | D \<Rightarrow> if isAdvanced
                then ''Significant form issues detected. Consistent practice with these drills will help build better habits.''
                else ''Your form needs work. Practice the recommended drills.''
         | F \<Rightarrow> if isAdvanced
                then ''Your shooting form needs fundamental corrections. Start with the basics and build from there.''
                else ''Major form issues detected. Focus on fundamentals.'')"

text \<open>The elaboration appended to the description for the advanced tiers.\<close>

fun advancedExplanations :: "FormIssueType \<Rightarrow> FormIssueSeverity \<Rightarrow> string" where
  "advancedExplanations elbow_flare major = '' When your elbow flares out, it creates inconsistent release angles and reduces shooting accuracy. Proper elbow alignment ensures the ball travels in a straight line toward the basket.''"
| "advancedExplanations elbow_flare moderate = '' Better elbow alignment will improve your shot consistency and make it easier to repeat your form.''"
| "advancedExplanations elbow_flare minor = '' Small adjustments to elbow position can significantly improve accuracy.''"
| "advancedExplanations wrist_angle major = '' Proper wrist snap generates backspin and controls the ball's trajectory. Without correct wrist mechanics, your shots will lack consistency and touch.''"
| "advancedExplanations wrist_angle moderate = '' Improving wrist mechanics will give you better control over shot arc and backspin.''"
| "advancedExplanations wrist_angle minor = '' Fine-tuning wrist position will enhance your shooting touch.''"
| "advancedExplanations stance major = '' Your base provides stability and power for your shot. Poor stance leads to balance issues and inconsistent release points.''"
| "advancedExplanations stance moderate = '' Better stance alignment will improve your balance and shooting consistency.''"
| "advancedExplanations stance minor = '' Small stance adjustments can improve your overall shooting rhythm.''"
| "advancedExplanations follow_through major = '' Follow-through is crucial for shot consistency and accuracy. It ensures complete energy transfer and proper backspin on the ball.''"
| "advancedExplanations follow_through moderate = '' Extending your follow-through will improve shot consistency and help develop muscle memory.''"
| "advancedExplanations follow_through minor = '' A complete follow-through adds the finishing touch to good shooting form.''"

definition generateExplanation :: "FormIssue \<Rightarrow> AnalysisTier \<Rightarrow> string" where
  "generateExplanation iss t =
     (let isAdvanced = (t \<noteq> basic)
      in if \<not> isAdvanced then description iss
         else description iss @ advancedExplanations (type iss) (severity iss))"

fun generateWhyItMatters :: "FormIssueType \<Rightarrow> string" where
  "generateWhyItMatters elbow_flare = ''Proper elbow alignment is the foundation of consistent shooting. It ensures the ball travels in a straight line and makes your shot repeatable.''"
| "generateWhyItMatters wrist_angle = ''Wrist mechanics control ball rotation and arc. Good wrist form creates the backspin needed for soft shots that drop through the net.''"
| "generateWhyItMatters stance = ''Your stance provides the stable base for your entire shot. Good balance allows you to shoot consistently from any position on the court.''"
| "generateWhyItMatters follow_through = ''Follow-through completes the shooting motion and ensures full energy transfer. It's the signature of every great shooter.''"

text \<open>
  \<open>createRecommendations\<close>: a sorted copy of the issues, its first \<open>maxCount\<close> entries,
  each mapped with its index.
\<close>

definition createRecommendations ::
  "FormIssue list \<Rightarrow> nat \<Rightarrow> AnalysisTier \<Rightarrow> FeedbackRecommendation list" where
  "createRecommendations issues maxCount t =
     (let sortedIssues = sortBySeverity issues;
          topIssues = take maxCount sortedIssues
      in map (\<lambda>(index, iss).
                \<lparr>priority = index + 1,
                 issue = iss,
                 explanation = generateExplanation iss t,
                 drills = recommendedDrills iss,
                 whyItMatters = generateWhyItMatters (type iss)\<rparr>)
             (enumerate 0 topIssues))"

definition generateEncouragement :: "FormScore \<Rightarrow> nat \<Rightarrow> string" where
  "generateEncouragement score issueCount =
     (if score = A then ''Keep up the excellent work! Your dedication to proper form is paying off.''
      else if score = B then ''You're on the right track! Focus on these areas and you'll see great improvement.''
      else if issueCount \<le> 2 then ''You're making progress! Work on these specific areas and your form will improve quickly.''
      else ''Every great shooter started where you are now. Consistent practice with these drills will build the muscle memory you need.'')"

text \<open>\<open>`${drills[0]}`\<close>: an empty array gives the text \<open>undefined\<close>.\<close>

definition firstDrill :: "string list \<Rightarrow> string" where
  "firstDrill ds = (case ds of [] \<Rightarrow> ''undefined'' | d # _ \<Rightarrow> d)"

definition generateNextSteps :: "FeedbackRecommendation list \<Rightarrow> FormScore \<Rightarrow> string list" where
  "generateNextSteps recs score =
     (case recs of
        [] \<Rightarrow> []
      | topIssue # rest \<Rightarrow>
          (''Start with: '' @ firstDrill (drills topIssue)) #
          (case rest of
             [] \<Rightarrow> []
           | second # _ \<Rightarrow> [''Then practice: '' @ firstDrill (drills second)])) @
     (if score = A \<or> score = B
      then [''Record another session to track your consistency'']
      else [''Practice these drills for 10-15 minutes daily'',
            ''Record a new session in 2-3 days to check progress''])"

definition generateFeedback :: "FormAnalysisResult \<Rightarrow> AnalysisTier \<Rightarrow> SessionFeedback" where
  "generateFeedback analysisResult analysisTier =
     (let maxRecommendations = (if analysisTier = basic then 2 else 3);
          recs = createRecommendations (detectedIssues analysisResult) maxRecommendations
                   analysisTier
      in \<lparr>overallMessage = generateOverallMessage (overallScore analysisResult) analysisTier,
          formScore = overallScore analysisResult,
          recommendations = recs,
          encouragement =
            generateEncouragement (overallScore analysisResult)
              (length (detectedIssues analysisResult)),
          nextSteps = generateNextSteps recs (overallScore analysisResult)\<rparr>)"

section \<open>Adaptive recommendation system (feedback/AdaptiveRecommendationSystem.ts)\<close>

datatype SyncStatus = local | synced | pending

datatype LightingQuality = good | fair | poor



datatype SeverityTrend = improving | stable | worsening






section \<open>Device capability detector (utils/DeviceCapabilityDetector.ts)\<close>

datatype PlatformOS = android | ios | other_os

definition getAvailableRAM :: "PlatformOS \<Rightarrow> int" where
  "getAvailableRAM os = (if os = android then 4096 else if os = ios then 4096 else 2048)"

definition getCPUCores :: "PlatformOS \<Rightarrow> int" where
  "getCPUCores os = (if os = android \<or> os = ios then 4 else 2)"

definition checkGPUAvailability :: "PlatformOS \<Rightarrow> bool" where
  "checkGPUAvailability os = (os = android \<or> os = ios)"

definition checkTFLiteAvailability :: bool where
  "checkTFLiteAvailability = True"

text \<open>\<open>runPerformanceBenchmark\<close>, as a function of the duration it measures (milliseconds).\<close>

definition runPerformanceBenchmark :: "int \<Rightarrow> int" where
  "runPerformanceBenchmark duration =
     (let score :: real =
            (if duration < 50 then 90 + min 10 ((50 - real_of_int duration) / 5)
             else if duration < 150 then 50 + ((150 - real_of_int duration) / 100) * 40
             else max 0 (50 - ((real_of_int duration - 150) / 10)))
      in round score)"

definition classifyDeviceTier :: "int \<Rightarrow> int \<Rightarrow> int \<Rightarrow> DeviceTier" where
  "classifyDeviceTier ram cores score =
     (if ram \<ge> 6144 \<and> cores \<ge> 6 \<and> score > 70 then high
      else if ram \<ge> 3072 \<and> cores \<ge> 4 \<and> score > 40 then mid
      else low)"

text \<open>
  The row with \<open>id = 1\<close> of the table \<open>device_capabilities\<close>, and the database: when it is
  not initialised \<open>getDatabase\<close> throws; \<open>cache_row\<close> is the row, if the table has one.
\<close>

record CacheRow =
  row_tier :: DeviceTier
  available_ram :: int
  cpu_cores :: int
  has_gpu :: int
  ml_framework_supported :: int
  benchmark_score :: int
  last_assessed :: int

record Database =
  initialized :: bool
  cache_row :: "CacheRow option"

definition sevenDaysInMs :: int where
  "sevenDaysInMs = 7 * 24 * 60 * 60 * 1000"

text \<open>\<open>loadCachedCapabilities\<close>; \<open>now\<close> is its reading of the clock. Every error gives \<open>null\<close>.\<close>

definition loadCachedCapabilities :: "int \<Rightarrow> Database \<Rightarrow> DeviceCapabilities option" where
  "loadCachedCapabilities now db =
     (if \<not> initialized db then None
      else case cache_row db of
             None \<Rightarrow> None
           | Some row \<Rightarrow>
               (let cacheAge = now - last_assessed row
                in if cacheAge > sevenDaysInMs then None
                   else Some \<lparr>tier = row_tier row,
                              availableRAM = available_ram row,
                              cpuCores = cpu_cores row,
                              hasGPU = (has_gpu row = 1),
                              mlFrameworkSupported = (ml_framework_supported row = 1),
                              benchmarkScore = benchmark_score row\<rparr>))"

text \<open>
  \<open>cacheDeviceCapabilities\<close>: \<open>INSERT OR REPLACE\<close> of the row with \<open>id = 1\<close>; \<open>now\<close> is its
  reading of the clock. An error is logged and the database stays as it was.
\<close>

definition cacheDeviceCapabilities :: "int \<Rightarrow> DeviceCapabilities \<Rightarrow> Database \<Rightarrow> Database" where
  "cacheDeviceCapabilities now capabilities db =
     (if \<not> initialized db then db
      else db\<lparr>cache_row :=
                Some \<lparr>row_tier = tier capabilities,
                      available_ram = availableRAM capabilities,
                      cpu_cores = cpuCores capabilities,
                      has_gpu = (if hasGPU capabilities then 1 else 0),
                      ml_framework_supported =
                        (if mlFrameworkSupported capabilities then 1 else 0),
                      benchmark_score = benchmarkScore capabilities,
                      last_assessed = now\<rparr>\<rparr>)"

text \<open>The five probes and the classification of a full detection.\<close>

definition fullDetection :: "PlatformOS \<Rightarrow> int \<Rightarrow> DeviceCapabilities" where
  "fullDetection os benchmarkDuration =
     (let ram = getAvailableRAM os;
          cores = getCPUCores os;
          gpu = checkGPUAvailability os;
          ml = checkTFLiteAvailability;
          score = runPerformanceBenchmark benchmarkDuration
      in \<lparr>tier = classifyDeviceTier ram cores score,
          availableRAM = ram, cpuCores = cores, hasGPU = gpu,
          mlFrameworkSupported = ml, benchmarkScore = score\<rparr>)"

text \<open>
  Which way \<open>detectDeviceCapabilities\<close> returned: from the cache, or after running the
  probes and the write to the cache.
\<close>

datatype DetectionPath = UsedCache | FullDetection

record DetectionOutcome =
  capabilities :: DeviceCapabilities
  database :: Database
  path :: DetectionPath

text \<open>
  \<open>detectDeviceCapabilities\<close>. \<open>now\<close> is the clock read by the load, \<open>cacheTime\<close> the clock
  read by the write; \<open>os\<close> and \<open>benchmarkDuration\<close> are what the probes observe.
\<close>

definition detectDeviceCapabilities ::
  "bool \<Rightarrow> int \<Rightarrow> int \<Rightarrow> PlatformOS \<Rightarrow> int \<Rightarrow> Database \<Rightarrow> DetectionOutcome" where
  "detectDeviceCapabilities forceRefresh now cacheTime os benchmarkDuration db =
     (case (if \<not> forceRefresh then loadCachedCapabilities now db else None) of
        Some cached \<Rightarrow> \<lparr>capabilities = cached, database = db, path = UsedCache\<rparr>
      | None \<Rightarrow>
          (let detected = fullDetection os benchmarkDuration
           in \<lparr>capabilities = detected,
               database = cacheDeviceCapabilities cacheTime detected db,
               path = FullDetection\<rparr>))"

section \<open>Definitions used to state the properties\<close>

text \<open>The severity ranks of a list of issues, in the order of the list.\<close>

definition severityRanks :: "FormIssue list \<Rightarrow> nat list" where
  "severityRanks issues = map (\<lambda>iss. severityOrder (severity iss)) issues"

text \<open>The input of the analyzer's test of the cap: all four metrics are poor.\<close>

definition poorBiomechanics :: BiomechanicalAnalysis where
  "poorBiomechanics =
     \<lparr>ba_elbowAlignment = 40, ba_wristAngle = 45, ba_shoulderSquare = 50,
      ba_followThrough = 35, ba_releaseHeight = 0.5, ba_bodyBalance = 40\<rparr>"

definition noPhases :: ShootingPhases where
  "noPhases = \<lparr>preparation = [], release = [], ph_followThrough = []\<rparr>"

text \<open>
  The sum of a list of numbers, added up from the left starting at 0, and its mean, both
  in double precision. The mean of an empty list counts as 0.
\<close>

definition fsum :: "real list \<Rightarrow> real" where
  "fsum vs = foldl fadd 0 vs"

definition mean :: "real list \<Rightarrow> real" where
  "mean vs = (if vs = [] then 0 else fdiv (fsum vs) (real (length vs)))"



text \<open>Concrete sessions: one issue of the type elbow_flare each, of the given severities.\<close>

definition issueOf :: "FormIssueType \<Rightarrow> FormIssueSeverity \<Rightarrow> FormIssue" where
  "issueOf t sev = \<lparr>type = t, severity = sev, description = ''issue'', recommendedDrills = []\<rparr>"




text \<open>An analysis result with four issues, the least severe first.\<close>

definition fourIssueResult :: FormAnalysisResult where
  "fourIssueResult =
     \<lparr>overallScore = D,
      detectedIssues =
        [issueOf wrist_angle minor, issueOf stance moderate,
         issueOf elbow_flare major, issueOf follow_through major],
      biomechanicalMetrics =
        \<lparr>elbowAlignment = 50, wristAngle = 70, shoulderSquare = 65, followThrough = 55\<rparr>\<rparr>"

text \<open>The four metrics of a result all lie between 0 and 100.\<close>

definition metricsInRange :: "BiomechanicalMetrics \<Rightarrow> bool" where
  "metricsInRange m =
     (0 \<le> elbowAlignment m \<and> elbowAlignment m \<le> 100 \<and>
      0 \<le> wristAngle m \<and> wristAngle m \<le> 100 \<and>
      0 \<le> shoulderSquare m \<and> shoulderSquare m \<le> 100 \<and>
      0 \<le> followThrough m \<and> followThrough m \<le> 100)"

text \<open>The biomechanics of the scenario, and concrete inputs for the two engines.\<close>

definition excellentBiomechanics :: BiomechanicalAnalysis where
  "excellentBiomechanics =
     \<lparr>ba_elbowAlignment = 95, ba_wristAngle = 92, ba_shoulderSquare = 94,
      ba_followThrough = 90, ba_releaseHeight = 0.8, ba_bodyBalance = 88\<rparr>"

definition armFrame :: KeypointFrame where
  "armFrame =
     \<lparr>keypoints = (\<lambda>joint.
         if joint = RIGHT_SHOULDER then Some \<lparr>x = 0.5, y = 0.3, z = 0, visibility = 1\<rparr>
         else if joint = RIGHT_ELBOW then Some \<lparr>x = 0.5, y = 0.5, z = 0, visibility = 1\<rparr>
         else if joint = RIGHT_WRIST then Some \<lparr>x = 0.6, y = 0.5, z = 0, visibility = 1\<rparr>
         else None),
      timestamp = 0, confidence = 0.9\<rparr>"

definition typicalMotion :: MotionAnalysisResult where
  "typicalMotion =
     \<lparr>trajectory = \<lparr>releaseAngle = 48, releaseHeight = 0.7, arcHeight = 0.75,
                     releaseSpeed = 0.65, followThroughDuration = 400\<rparr>,
      positioning = \<lparr>shoulderAlignment = 5, elbowAngle = 85, bp_wristAngle = 2,
                      stanceWidth = 0.5, kneeFlexion = 120\<rparr>,
      timing = \<lparr>totalDuration = 1500, preparationPhase = 600, releasePhase = 300,
                 followThroughPhase = 600\<rparr>\<rparr>"


definition variance :: "real list \<Rightarrow> real" where
  "variance vs = mean (map (\<lambda>v. fmul (fsub v (mean vs)) (fsub v (mean vs))) vs)"


text \<open>
  The capabilities a cache row stands for, the row written for capabilities at a time,
  a database holding a row assessed at a given time, and a day in milliseconds.
\<close>

definition rowCapabilities :: "CacheRow \<Rightarrow> DeviceCapabilities" where
  "rowCapabilities row =
     \<lparr>tier = row_tier row, availableRAM = available_ram row, cpuCores = cpu_cores row,
      hasGPU = (has_gpu row = 1), mlFrameworkSupported = (ml_framework_supported row = 1),
      benchmarkScore = benchmark_score row\<rparr>"

definition capabilitiesRow :: "DeviceCapabilities \<Rightarrow> int \<Rightarrow> CacheRow" where
  "capabilitiesRow caps time =
     \<lparr>row_tier = tier caps, available_ram = availableRAM caps, cpu_cores = cpuCores caps,
      has_gpu = (if hasGPU caps then 1 else 0),
      ml_framework_supported = (if mlFrameworkSupported caps then 1 else 0),
      benchmark_score = benchmarkScore caps, last_assessed = time\<rparr>"

definition cachedAt :: "int \<Rightarrow> Database" where
  "cachedAt time =
     \<lparr>initialized = True,
      cache_row = Some \<lparr>row_tier = high, available_ram = 8192, cpu_cores = 8, has_gpu = 1,
                        ml_framework_supported = 1, benchmark_score = 95,
                        last_assessed = time\<rparr>\<rparr>"

definition dayInMs :: int where
  "dayInMs = 24 * 60 * 60 * 1000"

section \<open>Properties of double-precision rounding\<close>

lemma rne_of_int: "rne (of_int n) = n"
  by (simp add: rne_def)

lemma rne_ge_floor: "\<lfloor>t\<rfloor> \<le> rne t"
  by (simp add: rne_def Let_def)

lemma rne_le_ceiling: "rne t \<le> \<lceil>t\<rceil>"
proof (cases "t = of_int \<lfloor>t\<rfloor>")
  case True
  then obtain n where "t = of_int n" ..
  then show ?thesis by (simp add: rne_of_int)
next
  case False
  then have "\<lceil>t\<rceil> = \<lfloor>t\<rfloor> + 1"
    by (metis ceiling_altdef)
  then show ?thesis
    by (simp add: rne_def Let_def)
qed

lemma rne_le: "t \<le> of_int n \<Longrightarrow> rne t \<le> n"
  using rne_le_ceiling [of t] by (meson ceiling_le order_trans)

lemma rne_nonneg: "0 \<le> t \<Longrightarrow> 0 \<le> rne t"
proof -
  assume "0 \<le> t"
  then have "0 \<le> \<lfloor>t\<rfloor>" by simp
  then show "0 \<le> rne t" using rne_ge_floor [of t] by (rule order_trans)
qed

lemma rne_nonpos: "t \<le> 0 \<Longrightarrow> rne t \<le> 0"
  using rne_le [of t 0] by simp

lemma binade_eq:
  assumes "2 powr of_int k \<le> \<bar>v\<bar>" "\<bar>v\<bar> < 2 powr (of_int k + 1)"
  shows "binade v = k"
proof -
  have "0 < 2 powr real_of_int k" by simp
  then have pos: "0 < \<bar>v\<bar>"
    using assms(1) by (rule less_le_trans)
  have "of_int k \<le> log 2 \<bar>v\<bar>"
    using assms(1) pos by (simp add: le_log_iff)
  moreover have "log 2 \<bar>v\<bar> < of_int k + 1"
    using assms(2) pos by (simp add: log_less_iff)
  ultimately show ?thesis
    unfolding binade_def by (simp add: floor_unique)
qed

lemma binade_mono:
  assumes "0 < a" "a \<le> b"
  shows "binade a \<le> binade b"
  unfolding binade_def
  using assms by (intro floor_mono) (simp add: log_le_cancel_iff)

lemma fl_nonneg: "0 \<le> v \<Longrightarrow> 0 \<le> fl v"
  by (simp add: fl_def rne_nonneg)

lemma fl_nonpos: "v \<le> 0 \<Longrightarrow> fl v \<le> 0"
  by (simp add: fl_def rne_nonpos mult_nonpos_nonneg divide_nonpos_nonneg)



lemma two_powr_nat: "2 powr real_of_int (int j) = (2::real) ^ j"
  by (simp add: powr_realpow)

lemma two_powr_neg_nat: "2 powr real_of_int (- int j) = 1 / (2::real) ^ j"
proof -
  have "2 powr real_of_int (- int j) = 2 powr (- real j)" by simp
  also have "\<dots> = inverse (2 powr real j)" by (rule powr_minus)
  also have "\<dots> = 1 / (2::real) ^ j" by (simp add: powr_realpow divide_inverse)
  finally show ?thesis .
qed

lemma fl_eval:
  assumes "v \<noteq> 0" "binade v = k" "- 1022 \<le> k"
  shows "fl v = of_int (rne (v / 2 powr of_int (k - 52))) * 2 powr of_int (k - 52)"
proof -
  have "ulpExponent v = k - 52"
    using assms(2,3) by (simp add: ulpExponent_def)
  then show ?thesis
    using assms(1) by (simp only: fl_def if_False)
qed

lemma fl_eval_ge1:
  assumes "2 ^ n \<le> \<bar>v\<bar>" "\<bar>v\<bar> < 2 * 2 ^ n" "n \<le> 52"
  shows "fl v = of_int (rne (v * 2 ^ (52 - n))) / 2 ^ (52 - n)"
proof -
  have "0 < (2::real) ^ n" by simp
  then have "0 < \<bar>v\<bar>"
    using assms(1) by (rule less_le_trans)
  then have nz: "v \<noteq> 0" by simp
  have b: "binade v = int n"
  proof (rule binade_eq)
    show "2 powr real_of_int (int n) \<le> \<bar>v\<bar>"
      unfolding two_powr_nat by (rule assms(1))
    have "2 powr (real_of_int (int n) + 1) = 2 powr real_of_int (int n) * 2"
      by (simp add: powr_add)
    then show "\<bar>v\<bar> < 2 powr (real_of_int (int n) + 1)"
      unfolding two_powr_nat using assms(2) by simp
  qed
  have e: "int n - 52 = - int (52 - n)"
    using assms(3) by simp
  have "fl v = of_int (rne (v / (1 / 2 ^ (52 - n)))) * (1 / 2 ^ (52 - n))"
    using fl_eval [OF nz b] unfolding e two_powr_neg_nat by simp
  then show ?thesis by simp
qed

lemma fl_eval_lt1:
  assumes "1 \<le> \<bar>v\<bar> * 2 ^ n" "\<bar>v\<bar> * 2 ^ n < 2" "n \<le> 1022"
  shows "fl v = of_int (rne (v * 2 ^ (52 + n))) / 2 ^ (52 + n)"
proof -
  have nz: "v \<noteq> 0"
    using assms(1) by auto
  have b: "binade v = - int n"
  proof (rule binade_eq)
    show "2 powr real_of_int (- int n) \<le> \<bar>v\<bar>"
      using assms(1) unfolding two_powr_neg_nat by (simp add: field_simps)
    have "2 powr (real_of_int (- int n) + 1) = 2 powr real_of_int (- int n) * 2 powr 1"
      by (rule powr_add)
    also have "\<dots> = 2 / 2 ^ n"
      unfolding two_powr_neg_nat by simp
    finally have p: "2 powr (real_of_int (- int n) + 1) = 2 / 2 ^ n" .
    have "\<bar>v\<bar> < 2 / 2 ^ n"
      using assms(2) by (simp add: field_simps)
    then show "\<bar>v\<bar> < 2 powr (real_of_int (- int n) + 1)"
      by (simp only: p)
  qed
  have e: "- int n - 52 = - int (52 + n)"
    by simp
  have "fl v = of_int (rne (v / (1 / 2 ^ (52 + n)))) * (1 / 2 ^ (52 + n))"
    using fl_eval [OF nz b] assms(3) unfolding e two_powr_neg_nat by simp
  then show ?thesis by simp
qed

lemma rne_down:
  assumes "of_int n \<le> t" "t < of_int n + 1 / 2"
  shows "rne t = n"
proof -
  have "\<lfloor>t\<rfloor> = n"
    using assms by (intro floor_unique) simp_all
  then show ?thesis
    using assms(2) by (simp add: rne_def Let_def)
qed


lemma fl_exact_lt1:
  assumes "1 \<le> \<bar>v\<bar> * 2 ^ n" "\<bar>v\<bar> * 2 ^ n < 2" "n \<le> 1022" "v * 2 ^ (52 + n) = of_int m"
  shows "fl v = v"
proof -
  have "fl v = of_int (rne (of_int m)) / 2 ^ (52 + n)"
    using fl_eval_lt1 [OF assms(1-3)] by (simp only: assms(4))
  also have "\<dots> = v * 2 ^ (52 + n) / 2 ^ (52 + n)"
    by (simp only: rne_of_int assms(4))
  finally show ?thesis by simp
qed


lemma fl_le_grid:
  assumes le: "v \<le> a"
    and a: "2 ^ n \<le> a" "a < 2 * 2 ^ n" "n \<le> 52" "a * 2 ^ (52 - n) = of_int m"
  shows "fl v \<le> a"
proof (cases "v \<le> 0")
  case True
  have "0 < (2::real) ^ n" by simp
  then have "0 < a" using a(1) by (rule less_le_trans)
  then have "0 \<le> a" by simp
  with fl_nonpos [OF True] show ?thesis by simp
next
  case False
  then have pos: "0 < v" by simp
  have apos: "0 < a" using pos le by simp
  have ba: "binade a = int n"
  proof (rule binade_eq)
    show "2 powr real_of_int (int n) \<le> \<bar>a\<bar>"
      unfolding two_powr_nat using a(1) apos by simp
    have "2 powr (real_of_int (int n) + 1) = 2 powr real_of_int (int n) * 2 powr 1"
      by (rule powr_add)
    then show "\<bar>a\<bar> < 2 powr (real_of_int (int n) + 1)"
      unfolding two_powr_nat using a(2) apos by simp
  qed
  define e where "e = ulpExponent v"
  have "binade v \<le> int n"
    using binade_mono [OF pos le] ba by simp
  then have e_le: "e \<le> int n - 52"
    using a(3) by (simp add: e_def ulpExponent_def)
  define j where "j = nat (int n - 52 - e)"
  have sum: "real_of_int e + real_of_int (int j) = real_of_int (- int (52 - n))"
    using e_le a(3) by (simp add: j_def)
  have "2 powr real_of_int e * 2 powr real_of_int (int j) = 2 powr real_of_int (- int (52 - n))"
    unfolding sum [symmetric] by (rule powr_add [symmetric])
  then have pw: "2 powr real_of_int e * 2 ^ j = 1 / 2 ^ (52 - n)"
    unfolding two_powr_nat two_powr_neg_nat .
  have epos: "0 < 2 powr real_of_int e" by simp
  have "a = a * 2 ^ (52 - n) * (1 / 2 ^ (52 - n))"
    by simp
  also have "\<dots> = of_int m * (2 powr real_of_int e * 2 ^ j)"
    unfolding pw a(4) ..
  finally have A: "a = of_int (m * 2 ^ j) * 2 powr real_of_int e"
    by simp
  have "v / 2 powr real_of_int e \<le> a / 2 powr real_of_int e"
    using le epos by (simp add: divide_right_mono)
  also have "\<dots> = of_int (m * 2 ^ j)"
    using epos by (subst A) simp
  finally have "rne (v / 2 powr real_of_int e) \<le> m * 2 ^ j"
    by (rule rne_le)
  then have "real_of_int (rne (v / 2 powr real_of_int e)) \<le> real_of_int (m * 2 ^ j)"
    by (simp only: of_int_le_iff)
  then have "real_of_int (rne (v / 2 powr real_of_int e)) * 2 powr real_of_int e
               \<le> real_of_int (m * 2 ^ j) * 2 powr real_of_int e"
    by (rule mult_right_mono) (use epos in simp)
  then show ?thesis
    using pos unfolding A [symmetric] by (simp add: fl_def e_def)
qed

lemma fl_le_40:
  assumes "v \<le> 40 + 20 / 2 ^ 53"
  shows "fl v \<le> 40"
proof (cases "v \<le> 40")
  case True
  then show ?thesis
    by (rule fl_le_grid [where n = 5 and m = "40 * 2 ^ 47"]) simp_all
next
  case False
  then have v: "40 < v" by simp
  have "fl v = of_int (rne (v * 2 ^ (52 - 5))) / 2 ^ (52 - 5)"
    by (rule fl_eval_ge1) (use v assms in simp_all)
  moreover have "rne (v * 2 ^ (52 - 5)) = 40 * 2 ^ 47"
    by (rule rne_down) (use v assms in simp_all)
  ultimately show ?thesis by simp
qed















lemma fl_two_fifths: "fl (2 / 5) = 3602879701896397 / 9007199254740992"
  by (subst fl_eval_lt1 [where n = 2]) (simp_all add: rne_def)




lemma fl_three_fifths: "fl (3 / 5) = 5404319552844595 / 9007199254740992"
  by (subst fl_eval_lt1 [where n = 1]) (simp_all add: rne_def)













section \<open>Verified properties: the router\<close>

lemma initialTier_midRangeConfig: "initialTier midRangeConfig = lightweight_ml"
  by (simp add: initialTier_def midRangeConfig_def validateProcessingTier_def)

text \<open>
  C1. \<open>selectProcessingTier\<close> is a function of its three arguments that returns the
  first matching rule: cloud exactly when connected, consented, on wifi and not metered;
  otherwise full_ml exactly when the device tier is high and the ML framework is
  supported; otherwise lightweight_ml exactly when the tier is mid and the framework is
  supported; otherwise basic. So cloud is never selected without connectivity and
  consent, and no ML tier without framework support.
\<close>

theorem selectProcessingTier_precedence:
  fixes capabilities :: DeviceCapabilities and connectivity :: ConnectivityStatus
    and consent :: UserConsent
  defines "sel \<equiv> selectProcessingTier capabilities connectivity consent"
  defines "cloudRule \<equiv> isConnected connectivity \<and> cloudProcessing consent \<and>
             connectionType connectivity = wifi \<and> \<not> isMetered connectivity"
  defines "fullRule \<equiv> tier capabilities = high \<and> mlFrameworkSupported capabilities"
  defines "lightRule \<equiv> tier capabilities = mid \<and> mlFrameworkSupported capabilities"
  shows "(sel = cloud \<longleftrightarrow> cloudRule) \<and>
         (sel = full_ml \<longleftrightarrow> \<not> cloudRule \<and> fullRule) \<and>
         (sel = lightweight_ml \<longleftrightarrow> \<not> cloudRule \<and> \<not> fullRule \<and> lightRule) \<and>
         (sel = basic \<longleftrightarrow> \<not> cloudRule \<and> \<not> fullRule \<and> \<not> lightRule) \<and>
         (sel = cloud \<longrightarrow> isConnected connectivity \<and> cloudProcessing consent) \<and>
         (sel = full_ml \<or> sel = lightweight_ml \<longrightarrow> mlFrameworkSupported capabilities)"
  unfolding sel_def cloudRule_def fullRule_def lightRule_def selectProcessingTier_def
  by auto

theorem selectProcessingTier_precedence_witness:
  "selectProcessingTier
     \<lparr>tier = mid, availableRAM = 4096, cpuCores = 4, hasGPU = True,
      mlFrameworkSupported = True, benchmarkScore = 65\<rparr>
     \<lparr>isConnected = False, connectionType = none, isMetered = False\<rparr>
     \<lparr>cloudProcessing = False, dataSharing = False\<rparr> = lightweight_ml \<and>
   mlFrameworkSupported
     \<lparr>tier = mid, availableRAM = 4096, cpuCores = 4, hasGPU = True,
      mlFrameworkSupported = True, benchmarkScore = 65\<rparr>"
  using selectProcessingTier_precedence
    [of "\<lparr>tier = mid, availableRAM = 4096, cpuCores = 4, hasGPU = True,
          mlFrameworkSupported = True, benchmarkScore = 65\<rparr>"
        "\<lparr>isConnected = False, connectionType = none, isMetered = False\<rparr>"
        "\<lparr>cloudProcessing = False, dataSharing = False\<rparr>"]
  by simp

text \<open>
  C2, as stated: when every attempted tier fails, the most recent failure is thrown.
  It fails for a run that starts at lightweight_ml: the fallback is basic, no further
  attempt is made, and the error thrown is built from the failure of lightweight_ml, the
  first one, while the most recent failure is that of basic.
\<close>

theorem routeVideoAnalysis_exhausted_counterexample:
  "alwaysFails ''shot.mp4'' (initialTier midRangeConfig) = Inl ''lightweight_ml failed'' \<and>
   getFallbackTier (initialTier midRangeConfig) = Some basic \<and>
   alwaysFails ''shot.mp4'' basic = Inl ''basic failed'' \<and>
   routeVideoAnalysis 0 10 ''shot.mp4'' midRangeConfig alwaysFails
     = Inl (VideoAnalysisFailed ''lightweight_ml failed'') \<and>
   routeVideoAnalysis 0 10 ''shot.mp4'' midRangeConfig alwaysFails
     \<noteq> Inl (VideoAnalysisFailed ''basic failed'') \<and>
   routeVideoAnalysis 0 10 ''shot.mp4'' midRangeConfig alwaysFails
     \<noteq> Inl (Rethrown ''basic failed'')"
  by (simp add: routeVideoAnalysis_def initialTier_def alwaysFails_def
      midRangeConfig_def validateProcessingTier_def)

text \<open>
  C2, amended: when every attempted tier fails, \<open>routeVideoAnalysis\<close> throws and never
  returns a result. When a last-resort attempt of basic was made (the fallback tier was
  not basic), the error of that attempt, the most recent one, leaves the router
  unchanged; otherwise the error thrown is a new error built from the failure of the
  first attempt.
\<close>

theorem routeVideoAnalysis_exhausted:
  assumes "exhausted videoPath config analysisFunction"
  shows "isl (routeVideoAnalysis startTime endTime videoPath config analysisFunction) \<and>
         routeVideoAnalysis startTime endTime videoPath config analysisFunction =
           (case getFallbackTier (initialTier config) of
              None \<Rightarrow>
                Inl (VideoAnalysisFailed
                       (projl (analysisFunction videoPath (initialTier config))))
            | Some fallbackTier \<Rightarrow>
                if fallbackTier = basic
                then Inl (VideoAnalysisFailed
                            (projl (analysisFunction videoPath (initialTier config))))
                else Inl (Rethrown (projl (analysisFunction videoPath basic))))"
  using assms
  by (auto simp: exhausted_def routeVideoAnalysis_def Let_def isl_def
      split: option.splits sum.splits)

theorem routeVideoAnalysis_exhausted_witness:
  "exhausted ''shot.mp4'' midRangeConfig alwaysFails \<and>
   routeVideoAnalysis 0 10 ''shot.mp4'' midRangeConfig alwaysFails
     = Inl (VideoAnalysisFailed ''lightweight_ml failed'')"
proof -
  have ex: "exhausted ''shot.mp4'' midRangeConfig alwaysFails"
    by (simp add: exhausted_def initialTier_midRangeConfig alwaysFails_def)
  show ?thesis
    using ex routeVideoAnalysis_exhausted [OF ex, of 0 10]
    by (simp add: initialTier_midRangeConfig alwaysFails_def)
qed

text \<open>
  C3. \<open>getFallbackTier\<close> is the chain cloud to full_ml, full_ml to lightweight_ml,
  lightweight_ml to basic, basic to nothing; from every tier, repeated application
  reaches basic after at most 3 steps, and the step after basic gives nothing.
\<close>

theorem getFallbackTier_chain:
  "getFallbackTier cloud = Some full_ml \<and>
   getFallbackTier full_ml = Some lightweight_ml \<and>
   getFallbackTier lightweight_ml = Some basic \<and>
   getFallbackTier basic = None \<and>
   (\<exists>n\<le>3. fallbackSteps n t = Some basic \<and> fallbackSteps (Suc n) t = None)"
proof -
  have "\<exists>n\<le>3. fallbackSteps n t = Some basic \<and> fallbackSteps (Suc n) t = None"
  proof (cases t)
    case basic
    then have "fallbackSteps 0 t = Some basic \<and> fallbackSteps (Suc 0) t = None" by simp
    then show ?thesis by (intro exI [of _ 0]) simp
  next
    case lightweight_ml
    then have "fallbackSteps 1 t = Some basic \<and> fallbackSteps (Suc 1) t = None" by simp
    then show ?thesis by (intro exI [of _ 1]) simp
  next
    case full_ml
    then have "fallbackSteps 2 t = Some basic \<and> fallbackSteps (Suc 2) t = None"
      by (simp add: numeral_2_eq_2)
    then show ?thesis by (intro exI [of _ 2]) simp
  next
    case cloud
    then have "fallbackSteps 3 t = Some basic \<and> fallbackSteps (Suc 3) t = None"
      by (simp add: numeral_3_eq_3)
    then show ?thesis by (intro exI [of _ 3]) simp
  qed
  then show ?thesis by simp
qed

text \<open>
  C4. With a config whose selected tier is lightweight_ml and valid, and a strategy that
  throws for lightweight_ml and succeeds for basic, the router returns the data of the
  basic call with tier basic and \<open>fallbackUsed\<close> set. Whatever the inputs, a returned
  result carries the tier whose strategy call produced its data.
\<close>

theorem routeVideoAnalysis_fallback_to_basic:
  "(selectedTier config = lightweight_ml \<and>
    validateProcessingTier (selectedTier config) config \<and>
    analysisFunction videoPath lightweight_ml = Inl err \<and>
    analysisFunction videoPath basic = Inr d
    \<longrightarrow> routeVideoAnalysis startTime endTime videoPath config analysisFunction =
          Inr \<lparr>data = d, pr_tier = basic, processingTime = endTime - startTime,
               fallbackUsed = True\<rparr>) \<and>
   (\<forall>r. routeVideoAnalysis startTime endTime videoPath config analysisFunction = Inr r
      \<longrightarrow> analysisFunction videoPath (pr_tier r) = Inr (data r))"
  by (auto simp: routeVideoAnalysis_def initialTier_def Let_def
      split: option.splits sum.splits if_splits)

theorem routeVideoAnalysis_fallback_to_basic_witness:
  "selectedTier midRangeConfig = lightweight_ml \<and>
   validateProcessingTier (selectedTier midRangeConfig) midRangeConfig \<and>
   lightweightFails ''shot.mp4'' lightweight_ml = Inl ''lightweight_ml failed'' \<and>
   lightweightFails ''shot.mp4'' basic = Inr 42 \<and>
   routeVideoAnalysis 0 10 ''shot.mp4'' midRangeConfig lightweightFails =
     Inr \<lparr>data = 42, pr_tier = basic, processingTime = 10, fallbackUsed = True\<rparr>"
  using routeVideoAnalysis_fallback_to_basic
    [of midRangeConfig lightweightFails "''shot.mp4''" "''lightweight_ml failed''" 42 0 10]
  by (simp add: midRangeConfig_def validateProcessingTier_def lightweightFails_def)

section \<open>Verified properties: issues and feedback\<close>

lemma sorted_severityRanks_sortBySeverity: "sorted (severityRanks (sortBySeverity issues))"
  by (simp add: severityRanks_def sortBySeverity_def)

lemma severityRanks_take: "severityRanks (take n issues) = take n (severityRanks issues)"
  by (simp add: severityRanks_def take_map)

text \<open>
  C7. \<open>detectFormIssuesFromPose\<close> returns at most 3 issues, in non-decreasing severity
  rank: every major issue before every moderate one, every moderate before every minor.
\<close>

theorem detectFormIssuesFromPose_cap_and_order:
  "length (detectFormIssuesFromPose biomechanics phases) \<le> 3 \<and>
   sorted (severityRanks (detectFormIssuesFromPose biomechanics phases))"
  by (simp add: detectFormIssuesFromPose_def severityRanks_take
      sorted_severityRanks_sortBySeverity sorted_wrt_take)

theorem detectFormIssuesFromPose_cap_and_order_witness:
  "map type (detectFormIssuesFromPose poorBiomechanics noPhases)
     = [elbow_flare, follow_through, wrist_angle] \<and>
   map severity (detectFormIssuesFromPose poorBiomechanics noPhases)
     = [major, major, moderate] \<and>
   length (detectFormIssuesFromPose poorBiomechanics noPhases) \<le> 3 \<and>
   sorted (severityRanks (detectFormIssuesFromPose poorBiomechanics noPhases))"
  using detectFormIssuesFromPose_cap_and_order [of poorBiomechanics noPhases]
  by (simp add: detectFormIssuesFromPose_def poorBiomechanics_def sortBySeverity_def
      elbowIssues_def wristIssues_def shoulderIssues_def followThroughIssues_def)

lemma map_issue_createRecommendations:
  "map issue (createRecommendations issues n t) = take n (sortBySeverity issues)"
  by (simp add: createRecommendations_def Let_def o_def case_prod_unfold map_snd_enumerate)

lemma map_priority_createRecommendations:
  "map priority (createRecommendations issues n t)
     = [1 ..< Suc (length (createRecommendations issues n t))]"
proof -
  define top where "top = take n (sortBySeverity issues)"
  have len: "length (createRecommendations issues n t) = length top"
    by (simp add: createRecommendations_def Let_def top_def)
  have fsts: "map fst (enumerate 0 top) = [0 ..< length top]"
    by (simp add: map_fst_enumerate)
  have "map priority (createRecommendations issues n t)
          = map (Suc \<circ> fst) (enumerate 0 top)"
    by (simp add: createRecommendations_def Let_def o_def case_prod_unfold top_def)
  also have "\<dots> = map Suc (map fst (enumerate 0 top))"
    by (simp only: map_map)
  also have "\<dots> = map Suc [0 ..< length top]"
    by (simp only: fsts)
  also have "\<dots> = [1 ..< Suc (length top)]"
    by (simp only: map_Suc_upt One_nat_def)
  finally show ?thesis
    by (simp only: len)
qed

text \<open>
  C8. \<open>generateFeedback\<close> returns at most 2 recommendations for the basic tier and at
  most 3 for any tier; their issues are the first 2 (basic) or 3 (otherwise) of the
  detected issues in severity order, major first, and their priorities are 1, 2, ..., N.
\<close>

theorem generateFeedback_recommendations:
  fixes analysisResult :: FormAnalysisResult and t :: AnalysisTier
  defines "recs \<equiv> recommendations (generateFeedback analysisResult t)"
  shows "length (recommendations (generateFeedback analysisResult basic)) \<le> 2 \<and>
         length recs \<le> 3 \<and>
         map issue recs
           = take (if t = basic then 2 else 3) (sortBySeverity (detectedIssues analysisResult)) \<and>
         sorted (severityRanks (map issue recs)) \<and>
         map priority recs = [1 ..< Suc (length recs)]"
proof -
  have 1: "map issue recs
           = take (if t = basic then 2 else 3) (sortBySeverity (detectedIssues analysisResult))"
    by (simp add: recs_def generateFeedback_def Let_def map_issue_createRecommendations)
  have 2: "map issue (recommendations (generateFeedback analysisResult basic))
           = take 2 (sortBySeverity (detectedIssues analysisResult))"
    by (simp add: generateFeedback_def Let_def map_issue_createRecommendations)
  have "length (map issue (recommendations (generateFeedback analysisResult basic))) \<le> 2"
    unfolding 2 by simp
  then have 3: "length (recommendations (generateFeedback analysisResult basic)) \<le> 2"
    by simp
  have "length (map issue recs) \<le> 3"
    unfolding 1 by auto
  then have 4: "length recs \<le> 3" by simp
  have 5: "sorted (severityRanks (map issue recs))"
    unfolding 1
    by (simp add: severityRanks_take sorted_severityRanks_sortBySeverity sorted_wrt_take)
  have 6: "map priority recs = [1 ..< Suc (length recs)]"
    unfolding recs_def
    by (simp add: generateFeedback_def Let_def map_priority_createRecommendations)
  from 1 3 4 5 6 show ?thesis by blast
qed


theorem generateFeedback_recommendations_witness:
  "map (type \<circ> issue) (recommendations (generateFeedback fourIssueResult basic))
     = [elbow_flare, follow_through] \<and>
   map priority (recommendations (generateFeedback fourIssueResult basic)) = [1, 2] \<and>
   map (type \<circ> issue) (recommendations (generateFeedback fourIssueResult lightweight_ml))
     = [elbow_flare, follow_through, stance] \<and>
   map priority (recommendations (generateFeedback fourIssueResult lightweight_ml)) = [1, 2, 3]"
proof -
  have s: "sortBySeverity (detectedIssues fourIssueResult)
             = [issueOf elbow_flare major, issueOf follow_through major,
                issueOf stance moderate, issueOf wrist_angle minor]"
    by (simp add: fourIssueResult_def sortBySeverity_def issueOf_def)
  have i: "map (type \<circ> issue) rs = map type (map issue rs)" for rs :: "FeedbackRecommendation list"
    by simp
  have b: "length (recommendations (generateFeedback fourIssueResult basic)) = 2"
    using arg_cong [OF conjunct1 [OF conjunct2 [OF conjunct2
            [OF generateFeedback_recommendations [of fourIssueResult basic]]]], of length]
    by (simp add: s)
  have l: "length (recommendations (generateFeedback fourIssueResult lightweight_ml)) = 3"
    using arg_cong [OF conjunct1 [OF conjunct2 [OF conjunct2
            [OF generateFeedback_recommendations [of fourIssueResult lightweight_ml]]]], of length]
    by (simp add: s)
  show ?thesis
    using generateFeedback_recommendations [of fourIssueResult basic]
          generateFeedback_recommendations [of fourIssueResult lightweight_ml]
    unfolding i b l
    by (simp add: s issueOf_def upt_rec)
qed

section \<open>Verified properties: progress trend\<close>
















section \<open>Verified properties: metrics and grades\<close>

lemma round_score_range:
  fixes s :: real
  assumes "0 \<le> s" "s \<le> 100"
  shows "0 \<le> real_of_int (round s) \<and> real_of_int (round s) \<le> 100"
proof -
  have "round (0::real) \<le> round s" using assms(1) by (simp only: round_mono)
  moreover have "round s \<le> round (100::real)" using assms(2) by (simp only: round_mono)
  ultimately show ?thesis by simp
qed

lemma penalty_score_range:
  "0 \<le> (d::real) \<Longrightarrow> 0 \<le> real_of_int (round (max 0 (100 - d))) \<and>
                 real_of_int (round (max 0 (100 - d))) \<le> 100"
  by (rule round_score_range) simp_all

lemma calculateElbowAlignment_range:
  "0 \<le> calculateElbowAlignment s e w \<and> calculateElbowAlignment s e w \<le> 100"
  unfolding calculateElbowAlignment_def Let_def
  by (rule penalty_score_range) simp

lemma calculateWristAngle_range:
  "0 \<le> calculateWristAngle e w frame \<and> calculateWristAngle e w frame \<le> 100"
  unfolding calculateWristAngle_def Let_def
  by (rule penalty_score_range) simp

lemma calculateShoulderSquare_range:
  "0 \<le> calculateShoulderSquare frame \<and> calculateShoulderSquare frame \<le> 100"
proof (cases "keypoints frame LEFT_SHOULDER")
  case None
  then show ?thesis by (simp add: calculateShoulderSquare_def)
next
  case (Some l)
  show ?thesis
  proof (cases "keypoints frame RIGHT_SHOULDER")
    case None
    then show ?thesis by (simp add: calculateShoulderSquare_def Some)
  next
    case r: (Some r)
    have "0 \<le> real_of_int (round (max 0 (100 - \<bar>\<bar>atan2 (y r - y l) (x r - x l) * (180 / pi)\<bar>\<bar> * 5))) \<and>
          real_of_int (round (max 0 (100 - \<bar>\<bar>atan2 (y r - y l) (x r - x l) * (180 / pi)\<bar>\<bar> * 5))) \<le> 100"
      by (rule penalty_score_range) simp
    then show ?thesis
      by (simp add: calculateShoulderSquare_def Some r Let_def)
  qed
qed

lemma foldl_fadd_nonneg:
  assumes "\<And>w. 0 \<le> g w" "0 \<le> a"
  shows "0 \<le> foldl (\<lambda>sum w. fadd sum (g w)) a ws"
  using assms(2)
  by (induction ws arbitrary: a) (simp_all add: fadd_def fl_nonneg assms(1))

lemma weighted_score_range:
  assumes "0 \<le> d" "d \<le> 100" "0 \<le> c" "c \<le> 100"
  shows "0 \<le> fadd (fmul d (fl 0.6)) (fmul c (fl 0.4))"
    and "fadd (fmul d (fl 0.6)) (fmul c (fl 0.4)) \<le> 100"
proof -
  have c6: "fl 0.6 = 5404319552844595 / 9007199254740992"
    using fl_three_fifths by simp
  have c4: "fl 0.4 = 3602879701896397 / 9007199254740992"
    using fl_two_fifths by simp
  have a0: "0 \<le> fmul d (fl 0.6)"
    unfolding fmul_def c6 by (rule fl_nonneg) (use assms(1) in simp)
  have b0: "0 \<le> fmul c (fl 0.4)"
    unfolding fmul_def c4 by (rule fl_nonneg) (use assms(3) in simp)
  have "d * (5404319552844595 / 9007199254740992) \<le> 60"
    using assms(2) by simp
  then have a1: "fmul d (fl 0.6) \<le> 60"
    unfolding fmul_def c6 by (rule fl_le_grid [where n = 5 and m = "60 * 2 ^ 47"]) simp_all
  have "c * (3602879701896397 / 9007199254740992) \<le> 40 + 20 / 2 ^ 53"
    using assms(4) by simp
  then have b1: "fmul c (fl 0.4) \<le> 40"
    unfolding fmul_def c4 by (rule fl_le_40)
  show "0 \<le> fadd (fmul d (fl 0.6)) (fmul c (fl 0.4))"
    unfolding fadd_def by (rule fl_nonneg) (use a0 b0 in simp)
  have "fmul d (fl 0.6) + fmul c (fl 0.4) \<le> 100"
    using a1 b1 by simp
  then show "fadd (fmul d (fl 0.6)) (fmul c (fl 0.4)) \<le> 100"
    unfolding fadd_def by (rule fl_le_grid [where n = 6 and m = "100 * 2 ^ 46"]) simp_all
qed

lemma calculateFollowThroughQuality_range:
  "0 \<le> calculateFollowThroughQuality frames \<and> calculateFollowThroughQuality frames \<le> 100"
proof -
  define ws where "ws = List.map_filter (\<lambda>frame. keypoints frame RIGHT_WRIST) frames"
  define avgY where
    "avgY = fdiv (foldl (\<lambda>sum w. fadd sum (y w)) 0 ws) (real (length ws))"
  define var where
    "var = fdiv (foldl (\<lambda>sum w. fadd sum (fmul (fsub (y w) avgY) (fsub (y w) avgY))) 0 ws)
             (real (length ws))"
  define dur where "dur = min 100 (fmul (fdiv (real (length frames)) 5) 100)"
  define cons where "cons = max 0 (fsub 100 (fmul var 500))"
  have "0 \<le> foldl (\<lambda>sum w. fadd sum (fmul (fsub (y w) avgY) (fsub (y w) avgY))) 0 ws"
    by (rule foldl_fadd_nonneg) (simp_all add: fmul_def fl_nonneg)
  then have var0: "0 \<le> var"
    unfolding var_def fdiv_def by (intro fl_nonneg divide_nonneg_nonneg) simp_all
  have v0: "0 \<le> fmul var 500"
    unfolding fmul_def by (rule fl_nonneg) (use var0 in simp)
  have "100 - fmul var 500 \<le> 100"
    using v0 by simp
  then have "fsub 100 (fmul var 500) \<le> 100"
    unfolding fsub_def by (rule fl_le_grid [where n = 6 and m = "100 * 2 ^ 46"]) simp_all
  then have c: "0 \<le> cons" "cons \<le> 100"
    by (simp_all add: cons_def)
  have "0 \<le> fmul (fdiv (real (length frames)) 5) 100"
    unfolding fmul_def fdiv_def by (intro fl_nonneg mult_nonneg_nonneg) simp_all
  then have d: "0 \<le> dur" "dur \<le> 100"
    by (simp_all add: dur_def)
  have eq: "calculateFollowThroughQuality frames =
          (if length frames = 0 then 0
           else if length ws < 2 then 50
           else real_of_int (round (fadd (fmul dur (fl 0.6)) (fmul cons (fl 0.4)))))"
    by (simp add: calculateFollowThroughQuality_def Let_def ws_def avgY_def var_def dur_def
        cons_def)
  from round_score_range [OF weighted_score_range [OF d c]] show ?thesis
    unfolding eq by simp
qed

lemma calculateBiomechanicalMetrics_range:
  "metricsInRange (calculateBiomechanicalMetrics motion)"
  unfolding calculateBiomechanicalMetrics_def Let_def metricsInRange_def
    BiomechanicalMetrics.select_convs
  by (intro conjI penalty_score_range [THEN conjunct1] penalty_score_range [THEN conjunct2])
    simp_all

lemma performLightweightMLAnalysis_range:
  assumes "performLightweightMLAnalysis model poseFrames = Inr result"
  shows "metricsInRange (biomechanicalMetrics result)"
  using assms
  by (auto simp: performLightweightMLAnalysis_def lightweightAnalysisBody_def
      calculateBiomechanicsFromPose_def metricsInRange_def Let_def
      calculateElbowAlignment_range calculateWristAngle_range calculateShoulderSquare_range
      calculateFollowThroughQuality_range
      split: option.splits sum.splits if_splits)

lemma performBasicAnalysis_range:
  "metricsInRange (biomechanicalMetrics (performBasicAnalysis motion))"
  by (simp add: performBasicAnalysis_def calculateBiomechanicalMetrics_range)

lemma performMLAnalysisWithFallback_range:
  "metricsInRange
     (biomechanicalMetrics (performMLAnalysisWithFallback t model poseFrames motion))"
  by (auto simp: performMLAnalysisWithFallback_def performBasicAnalysis_range
      performLightweightMLAnalysis_range split: sum.splits)

lemma performAnalysisByTier_range:
  "metricsInRange (biomechanicalMetrics (performAnalysisByTier t motion))"
  by (cases t) (simp_all add: performBasicAnalysis_range)

lemma formScore_cases: "score \<in> {A, B, C, D, F}"
  by (cases score) simp_all

text \<open>
  C5. In every output of a strategy (the basic analysis, the lightweight analysis when
  it returns, and the two dispatchers over the tiers) the four biomechanical metrics lie
  in [0, 100] and the overall score is one of A, B, C, D, F. The weighted sum of elbow
  95, wrist 92, shoulder 94, follow-through 90 and body balance 88 is at least 90, which
  is grade A.
\<close>

theorem strategy_metric_bounds:
  "metricsInRange (biomechanicalMetrics (performBasicAnalysis motion)) \<and>
   overallScore (performBasicAnalysis motion) \<in> {A, B, C, D, F} \<and>
   (\<forall>result. performLightweightMLAnalysis model poseFrames = Inr result \<longrightarrow>
      metricsInRange (biomechanicalMetrics result) \<and>
      overallScore result \<in> {A, B, C, D, F}) \<and>
   metricsInRange
     (biomechanicalMetrics (performMLAnalysisWithFallback t model poseFrames motion)) \<and>
   overallScore (performMLAnalysisWithFallback t model poseFrames motion)
     \<in> {A, B, C, D, F} \<and>
   metricsInRange (biomechanicalMetrics (performAnalysisByTier t motion)) \<and>
   overallScore (performAnalysisByTier t motion) \<in> {A, B, C, D, F} \<and>
   totalScore excellentBiomechanics \<ge> 90 \<and>
   calculateFormScore excellentBiomechanics = A"
proof -
  have t: "totalScore excellentBiomechanics \<ge> 90"
    by (simp add: totalScore_def excellentBiomechanics_def)
  then have g: "calculateFormScore excellentBiomechanics = A"
    by (simp add: calculateFormScore_def)
  have l: "\<forall>result. performLightweightMLAnalysis model poseFrames = Inr result \<longrightarrow>
             metricsInRange (biomechanicalMetrics result) \<and>
             overallScore result \<in> {A, B, C, D, F}"
    using performLightweightMLAnalysis_range formScore_cases by blast
  from t g l show ?thesis
    by (simp only: performBasicAnalysis_range performMLAnalysisWithFallback_range
        performAnalysisByTier_range formScore_cases simp_thms)
qed

lemma lightweight_armFrame:
  "\<exists>result. performLightweightMLAnalysis (Some ()) (Inr [armFrame]) = Inr result"
  by (simp add: performLightweightMLAnalysis_def lightweightAnalysisBody_def
      detectShootingPhases_def calculateBiomechanicsFromPose_def getShootingArmKeypoints_def
      armFrame_def Let_def)

theorem strategy_metric_bounds_witness:
  "metricsInRange (biomechanicalMetrics (performBasicAnalysis typicalMotion)) \<and>
   biomechanicalMetrics (performBasicAnalysis typicalMotion)
     = \<lparr>elbowAlignment = 75, wristAngle = 88, shoulderSquare = 80, followThrough = 85\<rparr> \<and>
   (\<exists>result. performLightweightMLAnalysis (Some ()) (Inr [armFrame]) = Inr result \<and>
      metricsInRange (biomechanicalMetrics result)) \<and>
   calculateFormScore excellentBiomechanics = A"
proof -
  have m: "biomechanicalMetrics (performBasicAnalysis typicalMotion)
     = \<lparr>elbowAlignment = 75, wristAngle = 88, shoulderSquare = 80, followThrough = 85\<rparr>"
    by (simp add: performBasicAnalysis_def calculateBiomechanicalMetrics_def typicalMotion_def)
  from lightweight_armFrame obtain result where
    r: "performLightweightMLAnalysis (Some ()) (Inr [armFrame]) = Inr result" ..
  from strategy_metric_bounds [of typicalMotion "Some ()" "Inr [armFrame]" basic] r m
  show ?thesis by auto
qed






section \<open>Verified properties: the capability cache\<close>

text \<open>
  C10, as stated: the cached record is returned if and only if it is less than 7 days
  old. It fails for a record exactly 7 days old, which is returned from the cache with
  no detection and no write.
\<close>

theorem detectDeviceCapabilities_cache_counterexample:
  "\<not> (7 * dayInMs - last_assessed (the (cache_row (cachedAt 0))) < 7 * dayInMs) \<and>
   detectDeviceCapabilities False (7 * dayInMs) (7 * dayInMs + 5) android 100 (cachedAt 0)
     = \<lparr>capabilities =
          \<lparr>tier = high, availableRAM = 8192, cpuCores = 8, hasGPU = True,
           mlFrameworkSupported = True, benchmarkScore = 95\<rparr>,
        database = cachedAt 0, path = UsedCache\<rparr>"
  by (simp add: detectDeviceCapabilities_def loadCachedCapabilities_def cachedAt_def
      dayInMs_def sevenDaysInMs_def)

text \<open>
  C10, amended: called with \<open>forceRefresh = false\<close>, \<open>detectDeviceCapabilities\<close> returns
  the cached capabilities, with no detection and the database as it was, if and only if
  the database is available and holds a record at most 7 days old. Otherwise full
  detection runs and returns what it detects, and, when the database is available, the
  row then holds the detected capabilities with the time of the write. A record 8 days
  old leads to full detection.
\<close>

theorem detectDeviceCapabilities_cache:
  fixes now cacheTime benchmarkDuration :: int and os :: PlatformOS and db :: Database
    and staleRow :: CacheRow
  defines "out \<equiv> detectDeviceCapabilities False now cacheTime os benchmarkDuration db"
  defines "fresh \<equiv> initialized db \<and>
             (\<exists>row. cache_row db = Some row \<and> now - last_assessed row \<le> 7 * dayInMs)"
  shows "(path out = UsedCache \<longleftrightarrow> fresh) \<and>
         (fresh \<longrightarrow> capabilities out = rowCapabilities (the (cache_row db)) \<and>
                    database out = db) \<and>
         (\<not> fresh \<longrightarrow> path out = FullDetection \<and>
                    capabilities out = fullDetection os benchmarkDuration \<and>
                    (initialized db \<longrightarrow>
                       cache_row (database out)
                         = Some (capabilitiesRow (fullDetection os benchmarkDuration) cacheTime))) \<and>
         (initialized db \<and> cache_row db = Some staleRow \<and> last_assessed staleRow = now - 8 * dayInMs
            \<longrightarrow> path out = FullDetection)"
  unfolding out_def fresh_def
  by (auto simp: detectDeviceCapabilities_def loadCachedCapabilities_def
      cacheDeviceCapabilities_def rowCapabilities_def capabilitiesRow_def
      dayInMs_def sevenDaysInMs_def Let_def split: option.splits)


theorem detectDeviceCapabilities_cache_witness:
  "path (detectDeviceCapabilities False (9 * dayInMs) (9 * dayInMs + 5) android 100
           (cachedAt (2 * dayInMs))) = UsedCache \<and>
   database (detectDeviceCapabilities False (9 * dayInMs) (9 * dayInMs + 5) android 100
           (cachedAt (2 * dayInMs))) = cachedAt (2 * dayInMs) \<and>
   path (detectDeviceCapabilities False (9 * dayInMs) (9 * dayInMs + 5) android 100
           (cachedAt dayInMs)) = FullDetection \<and>
   cache_row (database (detectDeviceCapabilities False (9 * dayInMs) (9 * dayInMs + 5) android 100
           (cachedAt dayInMs)))
     = Some \<lparr>row_tier = mid, available_ram = 4096, cpu_cores = 4, has_gpu = 1,
             ml_framework_supported = 1, benchmark_score = 70,
             last_assessed = 9 * dayInMs + 5\<rparr>"
  using detectDeviceCapabilities_cache
          [where now = "9 * dayInMs" and cacheTime = "9 * dayInMs + 5" and os = android
             and benchmarkDuration = 100 and db = "cachedAt (2 * dayInMs)"]
        detectDeviceCapabilities_cache
          [where now = "9 * dayInMs" and cacheTime = "9 * dayInMs + 5" and os = android
             and benchmarkDuration = 100 and db = "cachedAt dayInMs"
             and staleRow = "the (cache_row (cachedAt dayInMs))"]
  by (simp add: cachedAt_def dayInMs_def capabilitiesRow_def fullDetection_def
      getAvailableRAM_def getCPUCores_def checkGPUAvailability_def checkTFLiteAvailability_def
      runPerformanceBenchmark_def classifyDeviceTier_def)

end
